theory Spec2Isabelle
  imports Main "HOL-Library.Word"
begin

unbundle bit_operations_syntax

section \<open>Values shared by both implementations\<close>

subsection \<open>Java strings\<close>

text \<open>\<open>String.trim()\<close> drops the leading and trailing characters up to U+0020.\<close>

definition is_space :: "char \<Rightarrow> bool" where
  "is_space c = (of_char c \<le> (32::nat))"

definition trim :: "string \<Rightarrow> string" where
  "trim s = rev (dropWhile is_space (rev (dropWhile is_space s)))"

text \<open>\<open>String.startsWith\<close> and \<open>String.contains\<close>.\<close>

fun startsWith :: "string \<Rightarrow> string \<Rightarrow> bool" where
  "startsWith s [] = True"
| "startsWith [] (p # ps) = False"
| "startsWith (c # cs) (p # ps) = (c = p \<and> startsWith cs ps)"

fun contains :: "string \<Rightarrow> string \<Rightarrow> bool" where
  "contains [] p = (p = [])"
| "contains (c # cs) p = (startsWith (c # cs) p \<or> contains cs p)"

text \<open>\<open>String.replace(CharSequence, CharSequence)\<close> for a one-character target.\<close>

definition replace_char :: "char \<Rightarrow> char \<Rightarrow> string \<Rightarrow> string" where
  "replace_char a b s = map (\<lambda>c. if c = a then b else c) s"

subsection \<open>JSON trees (Jackson's JsonNode, and the argument bags of the JavaScript side)\<close>

text \<open>
  A number is carried as the text the host language renders it with (Jackson's
  \<open>asText()\<close>, JavaScript's \<open>ToString\<close>): the code under study never computes with
  a JSON number, it only prints or compares its text. An object keeps its members in
  insertion order (Jackson's ObjectNode is a LinkedHashMap); \<open>JMissing\<close> is Jackson's
  MissingNode, which \<open>path\<close> returns where \<open>get\<close> returns Java's null.
\<close>

datatype json =
    JNull
  | JBool bool
  | JNum string
  | JStr string
  | JArr "json list"
  | JObj "(string \<times> json) list"
  | JMissing

fun isObject :: "json \<Rightarrow> bool" where
  "isObject (JObj _) = True"
| "isObject _ = False"

text \<open>\<open>JsonNode.get(field)\<close>: the member, or Java's null (here \<open>None\<close>).\<close>

fun json_get :: "json \<Rightarrow> string \<Rightarrow> json option" where
  "json_get (JObj ms) k = map_of ms k"
| "json_get _ k = None"

text \<open>\<open>JsonNode.has(field)\<close> is \<open>get(field) != null\<close>: a member that is JSON null counts.\<close>

definition json_has :: "json \<Rightarrow> string \<Rightarrow> bool" where
  "json_has j k = (json_get j k \<noteq> None)"

text \<open>\<open>JsonNode.path(field)\<close>: the member, or the MissingNode.\<close>

definition json_path :: "json \<Rightarrow> string \<Rightarrow> json" where
  "json_path j k = (case json_get j k of None \<Rightarrow> JMissing | Some v \<Rightarrow> v)"

text \<open>\<open>JsonNode.asText()\<close>: the text of a scalar, the empty string for a container
  and for the MissingNode.\<close>

fun asText :: "json \<Rightarrow> string" where
  "asText JNull = ''null''"
| "asText (JBool b) = (if b then ''true'' else ''false'')"
| "asText (JNum t) = t"
| "asText (JStr s) = s"
| "asText (JArr _) = []"
| "asText (JObj _) = []"
| "asText JMissing = []"

text \<open>\<open>JsonNode.asBoolean()\<close>: a boolean node is its value, a number is true unless
  it is zero (an integer zero prints as \<open>0\<close>, a double as \<open>0.0\<close> or \<open>-0.0\<close>), a
  text node is true when it reads \<open>true\<close>, anything else is false.\<close>

fun asBoolean :: "json \<Rightarrow> bool" where
  "asBoolean (JBool b) = b"
| "asBoolean (JNum t) = (t \<noteq> ''0'' \<and> t \<noteq> ''0.0'' \<and> t \<noteq> ''-0.0'')"
| "asBoolean (JStr s) = (trim s = ''true'')"
| "asBoolean _ = False"

text \<open>\<open>ObjectNode.put(field, String)\<close> and \<open>ObjectNode.set(field, JsonNode)\<close> store
  JSON null for a Java null.\<close>

definition put_string :: "string option \<Rightarrow> json" where
  "put_string s = (case s of None \<Rightarrow> JNull | Some t \<Rightarrow> JStr t)"

definition set_node :: "json option \<Rightarrow> json" where
  "set_node n = (case n of None \<Rightarrow> JNull | Some j \<Rightarrow> j)"

subsection \<open>Java exceptions\<close>

text \<open>
  An exception is its class, its message (\<open>getMessage()\<close>, possibly null) and its
  cause. Only subclasses of \<open>java.lang.Exception\<close> are modelled: every \<open>catch\<close> of
  the code under study is \<open>catch (Exception e)\<close>. The messages are the source's
  Spanish texts, with accented letters written without the accent; log lines are
  left out throughout.
\<close>

datatype exn = Exn string "string option" "exn option"

fun getMessage :: "exn \<Rightarrow> string option" where
  "getMessage (Exn c m cause) = m"

fun getCause :: "exn \<Rightarrow> exn option" where
  "getCause (Exn c m cause) = cause"


definition IllegalArgumentException :: "string \<Rightarrow> exn" where
  "IllegalArgumentException m = Exn ''IllegalArgumentException'' (Some m) None"

definition IllegalStateException :: "string \<Rightarrow> exn" where
  "IllegalStateException m = Exn ''IllegalStateException'' (Some m) None"

definition SecurityException :: "string \<Rightarrow> exn" where
  "SecurityException m = Exn ''SecurityException'' (Some m) None"

definition RuntimeException :: "string \<Rightarrow> exn \<Rightarrow> exn" where
  "RuntimeException m cause = Exn ''RuntimeException'' (Some m) (Some cause)"

text \<open>Java's string concatenation prints a null reference as \<open>null\<close>.\<close>

definition concat_str :: "string option \<Rightarrow> string" where
  "concat_str s = (case s of None \<Rightarrow> ''null'' | Some t \<Rightarrow> t)"

section \<open>The Java dispatcher: ToolManager\<close>

subsection \<open>The registry's map\<close>

text \<open>
  \<open>tools\<close> is a \<open>ConcurrentHashMap<String, MCPTool>\<close>. Its \<open>values()\<close> walks the
  table's bins by index and each bin front to back; \<open>put\<close> of a new key appends to
  the key's bin, \<open>put\<close> of a present key replaces the value in place. The bin of a
  key is \<open>spread(key.hashCode()) & (n - 1)\<close>, with \<open>String.hashCode\<close> the polynomial
  \<open>s[0]*31^(k-1) + ... + s[k-1]\<close> in 32-bit arithmetic (a character counts as its
  code, which is Java's for ASCII names) and \<open>spread(h) = (h ^ (h >>> 16))
  & 0x7fffffff\<close>. The map is modelled as the list of its entries in the order
  \<open>values()\<close> walks them, for the table of the default constructor (\<open>n = 16\<close>); the
  JDK doubles the table when the twelfth mapping arrives or a bin gets its eighth
  node, so statements about the order are for registries smaller than that (the
  application registers at most six tools). Lookups do not depend on the order.
\<close>

definition String_hashCode :: "string \<Rightarrow> 32 word" where
  "String_hashCode s = foldl (\<lambda>h c. 31 * h + of_nat (of_char c)) 0 s"

definition spread :: "32 word \<Rightarrow> 32 word" where
  "spread h = (h XOR drop_bit 16 h) AND 0x7fffffff"

definition bin_index :: "string \<Rightarrow> nat" where
  "bin_index k = unat (spread (String_hashCode k) AND 15)"

definition chm_get :: "(string \<times> 'v) list \<Rightarrow> string \<Rightarrow> 'v option" where
  "chm_get m k = map_of m k"

fun chm_insert :: "string \<Rightarrow> 'v \<Rightarrow> (string \<times> 'v) list \<Rightarrow> (string \<times> 'v) list" where
  "chm_insert k v [] = [(k, v)]"
| "chm_insert k v ((k', v') # m) =
     (if bin_index k < bin_index k' then (k, v) # (k', v') # m
      else (k', v') # chm_insert k v m)"

definition chm_put :: "string \<Rightarrow> 'v \<Rightarrow> (string \<times> 'v) list \<Rightarrow> (string \<times> 'v) list" where
  "chm_put k v m =
     (if map_of m k \<noteq> None then map (\<lambda>(k', v'). if k' = k then (k', v) else (k', v')) m
      else chm_insert k v m)"

definition chm_remove :: "string \<Rightarrow> (string \<times> 'v) list \<Rightarrow> (string \<times> 'v) list" where
  "chm_remove k m = filter (\<lambda>(k', v'). k' \<noteq> k) m"

definition chm_values :: "(string \<times> 'v) list \<Rightarrow> 'v list" where
  "chm_values m = map snd m"

text \<open>The entries of the Java map stand in the order of their keys' bins.\<close>

definition bin_ordered :: "(string \<times> 'v) list \<Rightarrow> bool" where
  "bin_ordered m = sorted (map (\<lambda>(k, v). bin_index k) m)"

text \<open>
  The map is within what the 16-bin table holds without growing: fewer than twelve
  mappings, and fewer than eight in the bin of each key.
\<close>

definition within_table :: "(string \<times> 'v) list \<Rightarrow> bool" where
  "within_table m =
     (length m < 12
      \<and> list_all (\<lambda>(k, v). length (filter (\<lambda>(k', v'). bin_index k' = bin_index k) m) < 8) m)"

subsection \<open>Tools and the manager's state\<close>

text \<open>
  \<open>MCPTool\<close> is an interface; a tool is modelled by what its methods answer. The
  handler \<open>execute\<close> may call a collaborator (database, provider, file system): it
  takes the collaborators' state \<open>'w\<close> and returns the new one, with the JSON text
  it returns or the exception it throws. \<open>isEnabled()\<close> is asked again at each call
  (\<open>executeTool\<close>, \<open>getToolCount\<close>, \<open>hasToolEnabled\<close>), so its answer is read from
  the same state. \<open>getName()\<close> may answer null, which \<open>registerTool\<close> checks.
\<close>

record 'w MCPTool =
  getName :: "string option"
  getDescription :: "string option"
  getCategory :: "string option"
  getInputSchema :: json
  execute :: "json option \<Rightarrow> 'w \<Rightarrow> (exn + string) \<times> 'w"
  requiresAuth :: bool
  getVersion :: "string option"
  isEnabled :: "'w \<Rightarrow> bool"

text \<open>\<open>executionCount\<close> and \<open>errorCount\<close> are AtomicLongs: 64 bits, wrapping.\<close>

record 'w ToolManager =
  tools :: "(string \<times> 'w MCPTool) list"
  executionCount :: "64 word"
  errorCount :: "64 word"

definition new_ToolManager :: "'w ToolManager" where
  "new_ToolManager = \<lparr>tools = [], executionCount = 0, errorCount = 0\<rparr>"

text \<open>
  \<open>registerTool\<close>: a null tool and a null or blank name throw; a tool that is
  disabled at that moment is skipped without an error; otherwise \<open>tools.put\<close>.
\<close>

definition registerTool ::
  "'w MCPTool option \<Rightarrow> 'w \<Rightarrow> 'w ToolManager \<Rightarrow> exn + 'w ToolManager" where
  "registerTool tool w tm =
     (case tool of
        None \<Rightarrow> Inl (IllegalArgumentException ''La herramienta no puede ser null'')
      | Some t \<Rightarrow>
          (case getName t of
             None \<Rightarrow> Inl (IllegalArgumentException
                            ''El nombre de la herramienta no puede estar vacio'')
           | Some name \<Rightarrow>
               if trim name = [] then
                 Inl (IllegalArgumentException
                        ''El nombre de la herramienta no puede estar vacio'')
               else if \<not> isEnabled t w then Inr tm
               else Inr (tm\<lparr>tools := chm_put name t (tools tm)\<rparr>)))"

definition unregisterTool :: "string \<Rightarrow> 'w ToolManager \<Rightarrow> 'w ToolManager" where
  "unregisterTool name tm = tm\<lparr>tools := chm_remove name (tools tm)\<rparr>"

text \<open>\<open>getToolsListAsJson\<close>: one node per value of the map, in the map's order.
  (The source skips a tool whose getter throws while its node is built; the getters
  modelled here are plain answers.)\<close>

definition tool_node :: "'w MCPTool \<Rightarrow> json" where
  "tool_node t =
     JObj [(''name'', put_string (getName t)),
           (''description'', put_string (getDescription t)),
           (''inputSchema'', getInputSchema t),
           (''_metadata'',
              JObj [(''category'', put_string (getCategory t)),
                    (''version'', put_string (getVersion t)),
                    (''requiresAuth'', JBool (requiresAuth t))])]"

definition getToolsListAsJson :: "'w ToolManager \<Rightarrow> json" where
  "getToolsListAsJson tm = JArr (map tool_node (chm_values (tools tm)))"

text \<open>
  \<open>executeTool\<close> (the name is a String that is not null: the protocol adapter
  passes \<open>asText()\<close>): count the execution; an unknown name and a disabled tool each
  count an error and throw; otherwise run the handler, and on its exception count an
  error and throw a RuntimeException that carries the handler's message and has the
  handler's exception as its cause.
\<close>

definition executeTool ::
  "string \<Rightarrow> json option \<Rightarrow> 'w \<Rightarrow> 'w ToolManager \<Rightarrow> (exn + string) \<times> 'w \<times> 'w ToolManager" where
  "executeTool toolName arguments w tm =
     (let tm1 = tm\<lparr>executionCount := executionCount tm + 1\<rparr> in
      case chm_get (tools tm1) toolName of
        None \<Rightarrow>
          (Inl (IllegalArgumentException (''Herramienta no encontrada: '' @ toolName)),
           w, tm1\<lparr>errorCount := errorCount tm1 + 1\<rparr>)
      | Some tool \<Rightarrow>
          if \<not> isEnabled tool w then
            (Inl (IllegalStateException (''Herramienta deshabilitada: '' @ toolName)),
             w, tm1\<lparr>errorCount := errorCount tm1 + 1\<rparr>)
          else
            (case execute tool arguments w of
               (Inr result, w') \<Rightarrow> (Inr result, w', tm1)
             | (Inl e, w') \<Rightarrow>
                 (Inl (RuntimeException
                         (''Error ejecutando herramienta '' @ toolName @ '': ''
                            @ concat_str (getMessage e)) e),
                  w', tm1\<lparr>errorCount := errorCount tm1 + 1\<rparr>)))"

definition hasToolEnabled :: "string \<Rightarrow> 'w \<Rightarrow> 'w ToolManager \<Rightarrow> bool" where
  "hasToolEnabled name w tm =
     (case chm_get (tools tm) name of None \<Rightarrow> False | Some tool \<Rightarrow> isEnabled tool w)"

text \<open>\<open>getToolInfo\<close>: null for an unknown name, else the tool's details.\<close>

definition getToolInfo :: "string \<Rightarrow> 'w \<Rightarrow> 'w ToolManager \<Rightarrow> json option" where
  "getToolInfo toolName w tm =
     (case chm_get (tools tm) toolName of
        None \<Rightarrow> None
      | Some tool \<Rightarrow>
          Some (JObj [(''name'', put_string (getName tool)),
                      (''description'', put_string (getDescription tool)),
                      (''category'', put_string (getCategory tool)),
                      (''version'', put_string (getVersion tool)),
                      (''enabled'', JBool (isEnabled tool w)),
                      (''requiresAuth'', JBool (requiresAuth tool)),
                      (''inputSchema'', getInputSchema tool)]))"

text \<open>\<open>getToolCount\<close> counts the enabled tools, \<open>getTotalToolCount\<close> all of them.\<close>

definition getToolCount :: "'w \<Rightarrow> 'w ToolManager \<Rightarrow> nat" where
  "getToolCount w tm = length (filter (\<lambda>t. isEnabled t w) (chm_values (tools tm)))"

definition getTotalToolCount :: "'w ToolManager \<Rightarrow> nat" where
  "getTotalToolCount tm = length (tools tm)"

text \<open>
  The registry operations as one step function: a sequence of calls threads the
  manager and the collaborators' state. A call of \<open>registerTool\<close> that throws leaves
  the manager as it was. (\<open>cleanup\<close>, which empties the map at shutdown, is not one
  of them.)
\<close>

datatype 'w registry_op =
    Register "'w MCPTool option"
  | Unregister string
  | Execute string "json option"

fun apply_op :: "'w \<times> 'w ToolManager \<Rightarrow> 'w registry_op \<Rightarrow> 'w \<times> 'w ToolManager" where
  "apply_op (w, tm) (Register t) =
     (case registerTool t w tm of Inl e \<Rightarrow> (w, tm) | Inr tm' \<Rightarrow> (w, tm'))"
| "apply_op (w, tm) (Unregister k) = (w, unregisterTool k tm)"
| "apply_op (w, tm) (Execute k a) = snd (executeTool k a w tm)"

definition run_ops :: "'w registry_op list \<Rightarrow> 'w \<times> 'w ToolManager \<Rightarrow> 'w \<times> 'w ToolManager" where
  "run_ops ops s = foldl apply_op s ops"

text \<open>Whether an operation names the key \<open>k\<close> of the map: a registration of a tool
  of that name, or the removal of that name.\<close>

fun names_key :: "string \<Rightarrow> 'w registry_op \<Rightarrow> bool" where
  "names_key k (Register t) = (case t of None \<Rightarrow> False | Some t' \<Rightarrow> getName t' = Some k)"
| "names_key k (Unregister k') = (k' = k)"
| "names_key k (Execute k' a) = False"

fun changes_map :: "'w registry_op \<Rightarrow> bool" where
  "changes_map (Register t) = True"
| "changes_map (Unregister k) = True"
| "changes_map (Execute k a) = False"

text \<open>The table never grows in the course of a sequence of operations: the map is
  within the table before the first operation and after each one.\<close>

fun table_kept :: "'w registry_op list \<Rightarrow> 'w \<times> 'w ToolManager \<Rightarrow> bool" where
  "table_kept [] s = within_table (tools (snd s))"
| "table_kept (op # ops) s = (within_table (tools (snd s)) \<and> table_kept ops (apply_op s op))"

text \<open>The names a listing shows, in its order: the \<open>name\<close> member of each node.\<close>

definition node_names :: "json list \<Rightarrow> string list" where
  "node_names ns = map (\<lambda>n. asText (json_path n ''name'')) ns"

fun listed_names :: "json \<Rightarrow> string list" where
  "listed_names (JArr ns) = node_names ns"
| "listed_names _ = []"

text \<open>Every entry of the map is a tool stored under the name it answers, as
  \<open>registerTool\<close> stores it.\<close>

definition keyed :: "(string \<times> 'w MCPTool) list \<Rightarrow> bool" where
  "keyed m = list_all (\<lambda>(k, t). getName t = Some k) m"

section \<open>The JavaScript dispatcher: ToolsRegistry\<close>

text \<open>
  \<open>this.tools\<close> is a JavaScript \<open>Map\<close>: \<open>values()\<close> walks the entries in the order
  their keys were first set; \<open>set\<close> of a present key keeps the key's place. A
  descriptor is the object literal the registration methods store; its handler takes
  the arguments (\<open>None\<close> is \<open>undefined\<close>) and the collaborators' state, and returns
  a value or throws.
\<close>

datatype js_error = JsError string string

record 'w descriptor =
  name :: string
  description :: string
  inputSchema :: json
  handler :: "json option \<Rightarrow> 'w \<Rightarrow> (js_error + json) \<times> 'w"

type_synonym 'w ToolsRegistry = "(string \<times> 'w descriptor) list"

definition Map_has :: "(string \<times> 'v) list \<Rightarrow> string \<Rightarrow> bool" where
  "Map_has m k = (map_of m k \<noteq> None)"

definition Map_get :: "(string \<times> 'v) list \<Rightarrow> string \<Rightarrow> 'v option" where
  "Map_get m k = map_of m k"

definition Map_set :: "string \<Rightarrow> 'v \<Rightarrow> (string \<times> 'v) list \<Rightarrow> (string \<times> 'v) list" where
  "Map_set k v m =
     (if map_of m k \<noteq> None then map (\<lambda>(k', v'). if k' = k then (k', v) else (k', v')) m
      else m @ [(k, v)])"

definition Map_values :: "(string \<times> 'v) list \<Rightarrow> 'v list" where
  "Map_values m = map snd m"

definition getAvailableTools :: "'w ToolsRegistry \<Rightarrow> json list" where
  "getAvailableTools reg =
     map (\<lambda>tool. JObj [(''name'', JStr (name tool)),
                        (''description'', JStr (description tool)),
                        (''inputSchema'', inputSchema tool)])
         (Map_values reg)"

text \<open>
  \<open>executeTool\<close>: an unknown name throws; otherwise the handler runs on the
  arguments as they came, its value is returned and its error is thrown again as it
  is. (The log entries and the clock readings for them are left out.)
\<close>

definition ToolsRegistry_executeTool ::
  "string \<Rightarrow> json option \<Rightarrow> 'w \<Rightarrow> 'w ToolsRegistry \<Rightarrow> (js_error + json) \<times> 'w" where
  "ToolsRegistry_executeTool nm args w reg =
     (if \<not> Map_has reg nm then
        (Inl (JsError ''Error'' (''Herramienta '' @ [CHR 39] @ nm @ [CHR 39] @ '' no encontrada'')), w)
      else
        (case Map_get reg nm of
           None \<Rightarrow> (Inl (JsError ''TypeError'' ''Cannot read properties of undefined (reading 'handler')''), w)
         | Some tool \<Rightarrow> handler tool args w))"

definition ToolsRegistry_getToolInfo :: "string \<Rightarrow> 'w ToolsRegistry \<Rightarrow> 'w descriptor option" where
  "ToolsRegistry_getToolInfo nm reg = Map_get reg nm"

definition getToolsCount :: "'w ToolsRegistry \<Rightarrow> nat" where
  "getToolsCount reg = length reg"

text \<open>The JavaScript registration methods are a run of \<open>this.tools.set(name, {...})\<close>.\<close>

definition set_all :: "'w descriptor list \<Rightarrow> 'w ToolsRegistry \<Rightarrow> 'w ToolsRegistry" where
  "set_all ds reg = foldl (\<lambda>m d. Map_set (name d) d m) reg ds"

text \<open>
  Insertion order, stated on names alone: the names in the order in which each was
  inserted first (\<open>seen\<close> are those already there, in their order); inserting a name
  again does not move it.
\<close>

fun insertion_order :: "string list \<Rightarrow> string list \<Rightarrow> string list" where
  "insertion_order seen [] = seen"
| "insertion_order seen (k # ks) =
     insertion_order (if k \<in> set seen then seen else seen @ [k]) ks"

subsection \<open>The echo tool\<close>

text \<open>
  The handler is \<open>async (args) => `Echo: ${args.message}`\<close>. Reading a property of
  \<open>undefined\<close> or \<open>null\<close> throws a TypeError; of the values modelled only an object
  can have a member \<open>message\<close>; the template prints the member with JavaScript's
  \<open>ToString\<close>. \<open>ToString\<close> of an object calls its \<open>toString\<close>: an object parsed
  from JSON with a member of that name has no callable one, and the conversion
  throws a TypeError (\<open>None\<close> below); any other object prints as
  \<open>[object Object]\<close>. An array prints its elements joined by commas, \<open>null\<close> and
  \<open>undefined\<close> among them as nothing. (\<open>JMissing\<close>, which JavaScript does not
  have, stands for \<open>undefined\<close>.)
\<close>

fun join_comma :: "string list \<Rightarrow> string" where
  "join_comma [] = []"
| "join_comma [s] = s"
| "join_comma (s # t # ss) = s @ '','' @ join_comma (t # ss)"

fun js_ToString :: "json \<Rightarrow> string option" where
  "js_ToString JNull = Some ''null''"
| "js_ToString (JBool b) = Some (if b then ''true'' else ''false'')"
| "js_ToString (JNum t) = Some t"
| "js_ToString (JStr s) = Some s"
| "js_ToString (JArr xs) =
     map_option join_comma
       (those (map (\<lambda>x. if x = JNull \<or> x = JMissing then Some [] else js_ToString x) xs))"
| "js_ToString (JObj ms) =
     (if map_of ms ''toString'' \<noteq> None then None else Some ''[object Object]'')"
| "js_ToString JMissing = Some ''undefined''"

definition template_value :: "json option \<Rightarrow> string option" where
  "template_value v = (case v of None \<Rightarrow> Some ''undefined'' | Some j \<Rightarrow> js_ToString j)"

definition echo_handler :: "json option \<Rightarrow> 'w \<Rightarrow> (js_error + json) \<times> 'w" where
  "echo_handler args w =
     (case args of
        None \<Rightarrow>
          (Inl (JsError ''TypeError''
                  ''Cannot read properties of undefined (reading 'message')''), w)
      | Some JMissing \<Rightarrow>
          (Inl (JsError ''TypeError''
                  ''Cannot read properties of undefined (reading 'message')''), w)
      | Some JNull \<Rightarrow>
          (Inl (JsError ''TypeError''
                  ''Cannot read properties of null (reading 'message')''), w)
      | Some a \<Rightarrow>
          (case template_value (json_get a ''message'') of
             None \<Rightarrow>
               (Inl (JsError ''TypeError'' ''Cannot convert object to primitive value''), w)
           | Some s \<Rightarrow> (Inr (JStr (''Echo: '' @ s)), w)))"

definition echo :: "'w descriptor" where
  "echo = \<lparr>name = ''echo'',
           description = ''Repite el mensaje proporcionado'',
           inputSchema =
             JObj [(''type'', JStr ''object''),
                   (''properties'',
                      JObj [(''message'',
                               JObj [(''type'', JStr ''string''),
                                     (''description'', JStr ''Mensaje a repetir'')])]),
                   (''required'', JArr [JStr ''message''])],
           handler = echo_handler\<rparr>"

section \<open>The Java protocol adapter: MCPProtocolHandler\<close>

text \<open>
  What the handler reads from outside itself: Jackson's parser \<open>readTree\<close>, the clock
  (\<open>System.currentTimeMillis()\<close>, as the text of the number), the message the JVM
  gives a NullPointerException, and the ResourceManager, taken as an opaque
  collaborator (its listing and its read).
\<close>

record 'w environment =
  readTree :: "string \<Rightarrow> exn + json"
  currentTimeMillis :: string
  npe_message :: "string option"
  getResourcesListAsJson :: "'w \<Rightarrow> json"
  readResource :: "string \<Rightarrow> 'w \<Rightarrow> (exn + string) \<times> 'w"

record 'w MCPProtocolHandler =
  serverName :: string
  serverVersion :: string
  supportsTools :: bool
  supportsResources :: bool
  supportsPrompts :: bool
  supportsLogging :: bool
  isInitialized :: bool
  toolManager :: "'w ToolManager"

definition MCP_VERSION :: string where
  "MCP_VERSION = ''2024-11-05''"

definition new_MCPProtocolHandler :: "'w ToolManager \<Rightarrow> 'w MCPProtocolHandler" where
  "new_MCPProtocolHandler tm =
     \<lparr>serverName = ''universal-mcp-server-java'', serverVersion = ''1.0.0'',
      supportsTools = True, supportsResources = True, supportsPrompts = False,
      supportsLogging = False, isInitialized = False, toolManager = tm\<rparr>"

text \<open>
  A response is the tree that \<open>writeValueAsString\<close> then prints; \<open>None\<close> is the
  null a handler returns when it answers nothing (the transport sends only a
  response that is not null). The \<open>code\<close> of an error is the text of the number.
  \<open>rid\<close> is the \<open>id\<close> member of the request, null when it has none.
\<close>

definition createErrorResponse :: "json option \<Rightarrow> string \<Rightarrow> string \<Rightarrow> string option \<Rightarrow> json" where
  "createErrorResponse rid code message data =
     JObj [(''jsonrpc'', JStr ''2.0''),
           (''id'', set_node rid),
           (''error'',
              JObj ([(''code'', JNum code), (''message'', JStr message)]
                    @ (case data of None \<Rightarrow> [] | Some d \<Rightarrow> [(''data'', JStr d)])))]"

definition result_response :: "json option \<Rightarrow> json \<Rightarrow> json" where
  "result_response rid result =
     JObj [(''jsonrpc'', JStr ''2.0''), (''id'', set_node rid), (''result'', result)]"

definition handleInitialize :: "'w MCPProtocolHandler \<Rightarrow> json option \<Rightarrow> json option \<Rightarrow> json" where
  "handleInitialize st rid params =
     result_response rid
       (JObj [(''protocolVersion'', JStr MCP_VERSION),
              (''serverInfo'',
                 JObj [(''name'', JStr (serverName st)), (''version'', JStr (serverVersion st))]),
              (''capabilities'',
                 JObj ((if supportsTools st
                        then [(''tools'', JObj [(''listChanged'', JBool True)])] else [])
                     @ (if supportsResources st
                        then [(''resources'',
                                 JObj [(''subscribe'', JBool False),
                                       (''listChanged'', JBool True)])] else [])
                     @ (if supportsPrompts st
                        then [(''prompts'', JObj [(''listChanged'', JBool False)])] else [])
                     @ (if supportsLogging st then [(''logging'', JObj [])] else [])))])"

definition handleInitialized :: "'w MCPProtocolHandler \<Rightarrow> json option \<times> 'w MCPProtocolHandler" where
  "handleInitialized st = (None, st\<lparr>isInitialized := True\<rparr>)"

definition not_initialized :: "json option \<Rightarrow> json" where
  "not_initialized rid =
     createErrorResponse rid ''-32002'' ''Server not initialized''
       (Some ''Servidor no inicializado'')"

definition handleToolsList :: "'w MCPProtocolHandler \<Rightarrow> json option \<Rightarrow> json" where
  "handleToolsList st rid =
     (if \<not> isInitialized st then not_initialized rid
      else result_response rid (JObj [(''tools'', getToolsListAsJson (toolManager st))]))"

text \<open>
  \<open>handleToolsCall\<close>: \<open>params.path("name")\<close> on a request without \<open>params\<close> is a
  NullPointerException; it, the dispatcher's exception and a result that does not
  parse are all caught and answered with the error -32603 under the request's id.
  The dispatcher's counters and the handler's effects stay as they are by then.
\<close>

definition handleToolsCall ::
  "'w environment \<Rightarrow> 'w MCPProtocolHandler \<Rightarrow> 'w \<Rightarrow> json option \<Rightarrow> json option
     \<Rightarrow> json \<times> 'w \<times> 'w MCPProtocolHandler" where
  "handleToolsCall env st w rid params =
     (if \<not> isInitialized st then (not_initialized rid, w, st)
      else
        (case params of
           None \<Rightarrow>
             (createErrorResponse rid ''-32603'' ''Internal error'' (npe_message env), w, st)
         | Some ps \<Rightarrow>
             (let toolName = asText (json_path ps ''name'');
                  arguments = json_get ps ''arguments'';
                  (r, w', tm') = executeTool toolName arguments w (toolManager st);
                  st' = st\<lparr>toolManager := tm'\<rparr>
              in case r of
                   Inl e \<Rightarrow>
                     (createErrorResponse rid ''-32603'' ''Internal error'' (getMessage e),
                      w', st')
                 | Inr result \<Rightarrow>
                     (case readTree env result of
                        Inl e \<Rightarrow>
                          (createErrorResponse rid ''-32603'' ''Internal error''
                             (getMessage e), w', st')
                      | Inr tree \<Rightarrow> (result_response rid tree, w', st')))))"

definition handleResourcesList ::
  "'w environment \<Rightarrow> 'w MCPProtocolHandler \<Rightarrow> 'w \<Rightarrow> json option \<Rightarrow> json" where
  "handleResourcesList env st w rid =
     (if \<not> isInitialized st then not_initialized rid
      else result_response rid (JObj [(''resources'', getResourcesListAsJson env w)]))"

definition handleResourcesRead ::
  "'w environment \<Rightarrow> 'w MCPProtocolHandler \<Rightarrow> 'w \<Rightarrow> json option \<Rightarrow> json option
     \<Rightarrow> json \<times> 'w" where
  "handleResourcesRead env st w rid params =
     (if \<not> isInitialized st then (not_initialized rid, w)
      else
        (case params of
           None \<Rightarrow> (createErrorResponse rid ''-32603'' ''Internal error'' (npe_message env), w)
         | Some ps \<Rightarrow>
             (case readResource env (asText (json_path ps ''uri'')) w of
                (Inl e, w') \<Rightarrow>
                  (createErrorResponse rid ''-32603'' ''Internal error'' (getMessage e), w')
              | (Inr result, w') \<Rightarrow>
                  (case readTree env result of
                     Inl e \<Rightarrow>
                       (createErrorResponse rid ''-32603'' ''Internal error''
                          (getMessage e), w')
                   | Inr tree \<Rightarrow> (result_response rid tree, w')))))"

definition handlePing :: "'w environment \<Rightarrow> 'w MCPProtocolHandler \<Rightarrow> json option \<Rightarrow> json" where
  "handlePing env st rid =
     result_response rid
       (JObj [(''status'', JStr ''ok''),
              (''server'', JStr (serverName st)),
              (''version'', JStr (serverVersion st)),
              (''timestamp'', JNum (currentTimeMillis env))])"

text \<open>
  \<open>handleMessage\<close>: a message that does not parse is answered with -32603 and a
  message without \<open>"jsonrpc":"2.0"\<close> with -32600, both under the id null; otherwise
  the method's name selects the handler. The result is the response (if any), the
  collaborators' state and the handler's state.
\<close>

definition handleMessage ::
  "'w environment \<Rightarrow> 'w MCPProtocolHandler \<Rightarrow> 'w \<Rightarrow> string
     \<Rightarrow> json option \<times> 'w \<times> 'w MCPProtocolHandler" where
  "handleMessage env st w message =
     (case readTree env message of
        Inl e \<Rightarrow>
          (Some (createErrorResponse None ''-32603'' ''Internal error'' (getMessage e)), w, st)
      | Inr messageNode \<Rightarrow>
          if \<not> json_has messageNode ''jsonrpc''
             \<or> asText (json_path messageNode ''jsonrpc'') \<noteq> ''2.0'' then
            (Some (createErrorResponse None ''-32600'' ''Invalid Request''
                     (Some ''Mensaje JSON-RPC invalido'')), w, st)
          else
            (let method = asText (json_path messageNode ''method'');
                 rid = json_get messageNode ''id'';
                 params = json_get messageNode ''params''
             in if method = ''initialize'' then (Some (handleInitialize st rid params), w, st)
                else if method = ''initialized'' then
                  (fst (handleInitialized st), w, snd (handleInitialized st))
                else if method = ''tools/list'' then (Some (handleToolsList st rid), w, st)
                else if method = ''tools/call'' then
                  (case handleToolsCall env st w rid params of
                     (r, w', st') \<Rightarrow> (Some r, w', st'))
                else if method = ''resources/list'' then
                  (Some (handleResourcesList env st w rid), w, st)
                else if method = ''resources/read'' then
                  (case handleResourcesRead env st w rid params of
                     (r, w') \<Rightarrow> (Some r, w', st))
                else if method = ''resources/updated'' then (None, w, st)
                else if method = ''ping'' then (Some (handlePing env st rid), w, st)
                else if method = ''notifications/initialized'' then (None, w, st)
                else
                  (Some (createErrorResponse rid ''-32601'' ''Method not found''
                           (Some (''Metodo no implementado: '' @ method))), w, st)))"

text \<open>The methods that are answered with nothing, whatever the message carries.\<close>

definition silent_methods :: "string list" where
  "silent_methods = [''initialized'', ''resources/updated'', ''notifications/initialized'']"

text \<open>The methods whose handler first asks whether the server is initialized.\<close>

definition guarded_methods :: "string list" where
  "guarded_methods = [''tools/list'', ''tools/call'', ''resources/list'', ''resources/read'']"

subsection \<open>Reading requests and responses\<close>

text \<open>What \<open>handleMessage\<close> reads from a parsed message: the version check, the
  method's name and the id; and the id a response carries.\<close>

definition well_formed :: "json \<Rightarrow> bool" where
  "well_formed m = (json_has m ''jsonrpc'' \<and> asText (json_path m ''jsonrpc'') = ''2.0'')"

definition method_of :: "json \<Rightarrow> string" where
  "method_of m = asText (json_path m ''method'')"

definition id_of :: "json \<Rightarrow> json option" where
  "id_of m = json_get m ''id''"

definition response_id :: "json \<Rightarrow> json option" where
  "response_id r = json_get r ''id''"

definition error_code :: "json \<Rightarrow> json" where
  "error_code r = json_path (json_path r ''error'') ''code''"

section \<open>The file-system tool: FileSystemTool\<close>

text \<open>
  The tool computes with \<open>java.nio.file.Path\<close>, whose behaviour belongs to the
  platform's file-system provider. The operations it uses are taken as a parameter;
  \<open>Paths.get\<close> may throw (InvalidPathException).
\<close>

record 'p path_library =
  Paths_get :: "string \<Rightarrow> exn + 'p"
  path_normalize :: "'p \<Rightarrow> 'p"
  path_toString :: "'p \<Rightarrow> string"
  path_isAbsolute :: "'p \<Rightarrow> bool"
  path_resolve :: "'p \<Rightarrow> 'p \<Rightarrow> 'p"
  path_startsWith :: "'p \<Rightarrow> 'p \<Rightarrow> bool"

text \<open>
  The seven private methods that touch the file system (\<open>readFile\<close>, \<open>writeFile\<close>,
  \<open>listDirectory\<close>, \<open>getFileInfo\<close>, \<open>checkExists\<close>, \<open>deleteFile\<close>,
  \<open>createDirectory\<close>) with the arguments \<open>execute\<close> passes them. Running one is the
  parameter \<open>run\<close> below: it reads and changes the file system \<open>'fs\<close>. (What a
  method does with the path it is given, such as creating the parent directory or
  following a symbolic link, is inside \<open>run\<close>.)
\<close>

datatype 'p fs_call =
    ReadFile 'p json
  | WriteFile 'p string json
  | ListDirectory 'p bool
  | GetFileInfo 'p
  | CheckExists 'p
  | DeleteFile 'p
  | CreateDirectory 'p


definition quoted :: "string \<Rightarrow> string" where
  "quoted s = [CHR 0x27] @ s @ [CHR 0x27]"

text \<open>The test \<open>validateArguments\<close> makes on the text of the path.\<close>

definition forbidden_path :: "string \<Rightarrow> bool" where
  "forbidden_path path =
     (contains path ''..'' \<or> startsWith path ''/'' \<or> startsWith path [CHR 0x5C])"

text \<open>\<open>validateArguments\<close>: the exception it throws, if any.\<close>

definition validateArguments :: "json option \<Rightarrow> exn option" where
  "validateArguments arguments =
     (case arguments of
        None \<Rightarrow> Some (IllegalArgumentException ''Los argumentos deben ser un objeto JSON'')
      | Some a \<Rightarrow>
          if \<not> isObject a then
            Some (IllegalArgumentException ''Los argumentos deben ser un objeto JSON'')
          else if \<not> json_has a ''action'' then
            Some (IllegalArgumentException (''Falta el argumento '' @ quoted ''action''))
          else if \<not> json_has a ''path'' then
            Some (IllegalArgumentException (''Falta el argumento '' @ quoted ''path''))
          else if asText (json_path a ''action'') = ''write'' \<and> \<not> json_has a ''content'' then
            Some (IllegalArgumentException
                    (''La accion '' @ quoted ''write'' @ '' requiere el argumento ''
                       @ quoted ''content''))
          else
            (let path = asText (json_path a ''path'')
             in if forbidden_path path
                then Some (SecurityException (''Ruta no permitida: '' @ path))
                else None))"

text \<open>The cleaning step of \<open>resolveSafePath\<close>: backslashes become slashes, a leading
  \<open>./\<close> is dropped.\<close>

definition clean_path :: "string \<Rightarrow> string" where
  "clean_path relativePath =
     (let r1 = replace_char (CHR 0x5C) CHR ''/'' relativePath
      in if startsWith r1 ''./'' then drop 2 r1 else r1)"

text \<open>\<open>resolveSafePath\<close>: the resolved path, or the exception thrown.\<close>

definition resolveSafePath :: "'p path_library \<Rightarrow> 'p \<Rightarrow> string \<Rightarrow> exn + 'p" where
  "resolveSafePath lib basePath relativePath =
     (if trim relativePath = [] then
        Inl (IllegalArgumentException ''La ruta no puede estar vacia'')
      else
        (let r2 = clean_path relativePath
         in case Paths_get lib r2 of
              Inl e \<Rightarrow> Inl e
            | Inr p \<Rightarrow>
                (let requested = path_normalize lib p
                 in if contains (path_toString lib requested) ''..''
                       \<or> path_isAbsolute lib requested then
                      Inl (SecurityException (''Ruta no permitida: '' @ r2))
                    else
                      (let resolved = path_normalize lib (path_resolve lib basePath requested)
                       in if \<not> path_startsWith lib resolved basePath then
                            Inl (SecurityException
                                   (''Acceso fuera del directorio permitido: '' @ r2))
                          else Inr resolved))))"

text \<open>
  \<open>execute\<close> up to the call it selects: validation, resolution of the path, then the
  switch on the action. (Null arguments do not pass the validation; their branch
  below is the NullPointerException \<open>arguments.get\<close> would throw.)
\<close>

definition selected_call :: "'p path_library \<Rightarrow> 'p \<Rightarrow> json option \<Rightarrow> exn + 'p fs_call" where
  "selected_call lib basePath arguments =
     (case validateArguments arguments of
        Some e \<Rightarrow> Inl e
      | None \<Rightarrow>
          (case arguments of
             None \<Rightarrow> Inl (Exn ''NullPointerException'' None None)
           | Some a \<Rightarrow>
               (let action = asText (json_path a ''action'');
                    relativePath = asText (json_path a ''path'')
                in case resolveSafePath lib basePath relativePath of
                     Inl e \<Rightarrow> Inl e
                   | Inr targetPath \<Rightarrow>
                       if action = ''read'' then Inr (ReadFile targetPath a)
                       else if action = ''write'' then
                         Inr (WriteFile targetPath
                                (if json_has a ''content''
                                 then asText (json_path a ''content'') else []) a)
                       else if action = ''list'' then
                         Inr (ListDirectory targetPath
                                (json_has a ''recursive''
                                 \<and> asBoolean (json_path a ''recursive'')))
                       else if action = ''info'' then Inr (GetFileInfo targetPath)
                       else if action = ''exists'' then Inr (CheckExists targetPath)
                       else if action = ''delete'' then Inr (DeleteFile targetPath)
                       else if action = ''mkdir'' then Inr (CreateDirectory targetPath)
                       else Inl (IllegalArgumentException
                                   (''Accion no soportada: '' @ action)))))"


definition FileSystemTool_execute ::
  "'p path_library \<Rightarrow> 'p \<Rightarrow> ('p fs_call \<Rightarrow> 'fs \<Rightarrow> (exn + string) \<times> 'fs)
     \<Rightarrow> json option \<Rightarrow> 'fs \<Rightarrow> (exn + string) \<times> 'fs" where
  "FileSystemTool_execute lib basePath run arguments fs =
     (case selected_call lib basePath arguments of
        Inl e \<Rightarrow> (Inl e, fs)
      | Inr c \<Rightarrow> run c fs)"

text \<open>The tool as the dispatcher sees it: the answers of its interface methods
  (\<open>requiresAuth\<close>, \<open>getVersion\<close> and \<open>isEnabled\<close> are the interface's defaults).\<close>

definition FileSystemTool_schema :: json where
  "FileSystemTool_schema =
     JObj [(''type'', JStr ''object''),
           (''properties'',
              JObj [(''action'',
                       JObj [(''type'', JStr ''string''),
                             (''description'',
                                JStr ''Operacion a realizar en el sistema de archivos''),
                             (''enum'',
                                JArr [JStr ''read'', JStr ''write'', JStr ''list'',
                                      JStr ''info'', JStr ''exists'', JStr ''delete'',
                                      JStr ''mkdir''])]),
                    (''path'',
                       JObj [(''type'', JStr ''string''),
                             (''description'',
                                JStr ''Ruta relativa del archivo o directorio (relativa al workspace)''),
                             (''pattern'',
                                JStr (''^[a-zA-Z0-9._/'' @ [CHR 0x5C, CHR 0x5C] @ ''-]+$''))]),
                    (''content'',
                       JObj [(''type'', JStr ''string''),
                             (''description'',
                                JStr (''Contenido a escribir (solo para accion ''
                                        @ quoted ''write'' @ '')'')),
                             (''maxLength'', JNum ''5242880'')]),
                    (''encoding'',
                       JObj [(''type'', JStr ''string''),
                             (''description'',
                                JStr ''Codificacion del archivo (por defecto: UTF-8)''),
                             (''default'', JStr ''UTF-8''),
                             (''enum'',
                                JArr [JStr ''UTF-8'', JStr ''ASCII'', JStr ''ISO-8859-1''])]),
                    (''recursive'',
                       JObj [(''type'', JStr ''boolean''),
                             (''description'',
                                JStr (''Si el listado debe ser recursivo (solo para ''
                                        @ quoted ''list'' @ '')'')),
                             (''default'', JBool False)])]),
           (''required'', JArr [JStr ''action'', JStr ''path''])]"

definition FileSystemTool ::
  "'p path_library \<Rightarrow> 'p \<Rightarrow> ('p fs_call \<Rightarrow> 'fs \<Rightarrow> (exn + string) \<times> 'fs) \<Rightarrow> 'fs MCPTool" where
  "FileSystemTool lib basePath run =
     \<lparr>getName = Some ''filesystem'',
      getDescription =
        Some ''Operaciones seguras de sistema de archivos: leer, escribir, listar archivos y obtener informacion de forma controlada.'',
      getCategory = Some ''filesystem'',
      getInputSchema = FileSystemTool_schema,
      execute = FileSystemTool_execute lib basePath run,
      requiresAuth = False,
      getVersion = Some ''1.0.0'',
      isEnabled = (\<lambda>w. True)\<rparr>"

subsection \<open>Paths of the Unix provider\<close>

text \<open>
  An instance of the path operations for examples: a Unix path is whether it is
  absolute and its names. \<open>Paths.get\<close> drops empty names and refuses the NUL
  character; \<open>normalize\<close> drops \<open>.\<close> and cancels a name against a following \<open>..\<close>,
  keeps leading \<open>..\<close> of a relative path and drops them at the root; \<open>resolve\<close>
  returns an absolute argument, the receiver for an empty one, and otherwise joins;
  \<open>startsWith\<close> compares names.
\<close>

type_synonym unix_path = "bool \<times> string list"

fun split_names :: "string \<Rightarrow> string \<Rightarrow> string list" where
  "split_names cur [] = (if cur = [] then [] else [cur])"
| "split_names cur (c # cs) =
     (if c = CHR ''/'' then (if cur = [] then [] else [cur]) @ split_names [] cs
      else split_names (cur @ [c]) cs)"

fun normalize_names :: "bool \<Rightarrow> string list \<Rightarrow> string list \<Rightarrow> string list" where
  "normalize_names ab st [] = rev st"
| "normalize_names ab st (n # ns) =
     (if n = ''.'' then normalize_names ab st ns
      else if n = ''..'' then
        (case st of
           [] \<Rightarrow> if ab then normalize_names ab [] ns else normalize_names ab [''..''] ns
         | t # ts \<Rightarrow>
             if t = ''..'' then normalize_names ab (''..'' # st) ns
             else normalize_names ab ts ns)
      else normalize_names ab (n # st) ns)"

fun join_slash :: "string list \<Rightarrow> string" where
  "join_slash [] = []"
| "join_slash [s] = s"
| "join_slash (s # t # ss) = s @ ''/'' @ join_slash (t # ss)"

definition unix_paths :: "unix_path path_library" where
  "unix_paths =
     \<lparr>Paths_get = (\<lambda>s. if CHR 0x00 \<in> set s
                          then Inl (Exn ''InvalidPathException''
                                      (Some ''Nul character not allowed'') None)
                          else Inr (startsWith s ''/'', split_names [] s)),
      path_normalize = (\<lambda>(ab, ns). (ab, normalize_names ab [] ns)),
      path_toString = (\<lambda>(ab, ns). (if ab then ''/'' else []) @ join_slash ns),
      path_isAbsolute = fst,
      path_resolve = (\<lambda>(ab, ns) (ab', ns').
                        if ab' then (ab', ns') else if ns' = [] then (ab, ns)
                        else (ab, ns @ ns')),
      path_startsWith = (\<lambda>(ab, ns) (ab', ns'). ab = ab' \<and> take (length ns') ns = ns')\<rparr>"

definition workspace :: unix_path where
  "workspace = (True, [''srv'', ''workspace''])"


text \<open>A file system for examples: it only records the calls made on it.\<close>

definition record_call :: "'p fs_call \<Rightarrow> 'p fs_call list \<Rightarrow> (exn + string) \<times> 'p fs_call list" where
  "record_call c fs = (Inr ''{}'', fs @ [c])"

section \<open>Example tools\<close>

text \<open>
  Tools whose collaborator is a counter of the handler's runs. \<open>counting_tool\<close>
  declares a required member \<open>message\<close> and returns; \<open>failing_tool\<close> throws as a
  handler whose document store is unreachable; \<open>switch_tool\<close> answers
  \<open>isEnabled()\<close> from the collaborator's state: enabled until its handler has run.
\<close>

definition message_schema :: json where
  "message_schema =
     JObj [(''type'', JStr ''object''),
           (''properties'', JObj [(''message'', JObj [(''type'', JStr ''string'')])]),
           (''required'', JArr [JStr ''message''])]"

definition counting_tool :: "string \<Rightarrow> nat MCPTool" where
  "counting_tool k =
     \<lparr>getName = Some k, getDescription = Some ''counts its runs'',
      getCategory = Some ''example'', getInputSchema = message_schema,
      execute = (\<lambda>a w. (Inr ''{}'', Suc w)),
      requiresAuth = False, getVersion = Some ''1.0.0'', isEnabled = (\<lambda>w. True)\<rparr>"

definition failing_tool :: "string \<Rightarrow> nat MCPTool" where
  "failing_tool k =
     \<lparr>getName = Some k, getDescription = Some ''fails'',
      getCategory = Some ''example'', getInputSchema = message_schema,
      execute = (\<lambda>a w. (Inl (Exn ''IOException'' (Some ''store unreachable'') None), Suc w)),
      requiresAuth = False, getVersion = Some ''1.0.0'', isEnabled = (\<lambda>w. True)\<rparr>"

definition switch_tool :: "string \<Rightarrow> nat MCPTool" where
  "switch_tool k =
     \<lparr>getName = Some k, getDescription = Some ''runs once'',
      getCategory = Some ''example'', getInputSchema = message_schema,
      execute = (\<lambda>a w. (Inr ''{}'', Suc w)),
      requiresAuth = False, getVersion = Some ''1.0.0'', isEnabled = (\<lambda>w. w = 0)\<rparr>"

definition failing_descriptor :: "nat descriptor" where
  "failing_descriptor =
     \<lparr>name = ''failing'', description = ''fails'', inputSchema = message_schema,
      handler = (\<lambda>a w. (Inl (JsError ''Error'' ''store unreachable''), Suc w))\<rparr>"

text \<open>A manager holding two tools, a manager holding the file-system tool (on the
  recording file system), and the JavaScript registry after \<open>echo\<close> and one more
  tool were set.\<close>

definition example_manager :: "nat ToolManager" where
  "example_manager =
     \<lparr>tools = chm_put ''echo'' (counting_tool ''echo'')
                (chm_put ''filesystem'' (counting_tool ''filesystem'') []),
      executionCount = 0, errorCount = 0\<rparr>"

definition filesystem_manager :: "unix_path fs_call list ToolManager" where
  "filesystem_manager =
     \<lparr>tools = chm_put ''filesystem'' (FileSystemTool unix_paths workspace record_call) [],
      executionCount = 0, errorCount = 0\<rparr>"

definition example_registry :: "nat ToolsRegistry" where
  "example_registry = Map_set ''failing'' failing_descriptor (Map_set ''echo'' echo [])"

section \<open>Example messages\<close>

text \<open>A parser for examples: it knows the trees of the texts listed and fails on
  every other text.\<close>

definition readTree_of :: "(string \<times> json) list \<Rightarrow> string \<Rightarrow> exn + json" where
  "readTree_of table s =
     (case map_of table s of
        None \<Rightarrow> Inl (Exn ''JsonParseException'' (Some ''Unrecognized token'') None)
      | Some j \<Rightarrow> Inr j)"

text \<open>Example messages, as the texts the transport reads and the trees Jackson
  builds from them.\<close>

definition dq :: "string \<Rightarrow> string" where
  "dq s = [CHR 0x22] @ s @ [CHR 0x22]"

definition ping_notification :: string where
  "ping_notification =
     ''{'' @ dq ''jsonrpc'' @ '':'' @ dq ''2.0'' @ '','' @ dq ''method'' @ '':'' @ dq ''ping'' @ ''}''"

definition initialized_request :: string where
  "initialized_request =
     ''{'' @ dq ''jsonrpc'' @ '':'' @ dq ''2.0'' @ '','' @ dq ''id'' @ '':7,''
       @ dq ''method'' @ '':'' @ dq ''initialized'' @ ''}''"

definition versionless_request :: string where
  "versionless_request =
     ''{'' @ dq ''id'' @ '':7,'' @ dq ''method'' @ '':'' @ dq ''ping'' @ ''}''"

definition unknown_request :: string where
  "unknown_request =
     ''{'' @ dq ''jsonrpc'' @ '':'' @ dq ''2.0'' @ '','' @ dq ''id'' @ '':1,''
       @ dq ''method'' @ '':'' @ dq ''foo'' @ ''}''"

definition tools_list_request :: string where
  "tools_list_request =
     ''{'' @ dq ''jsonrpc'' @ '':'' @ dq ''2.0'' @ '','' @ dq ''id'' @ '':2,''
       @ dq ''method'' @ '':'' @ dq ''tools/list'' @ ''}''"

definition ping_request :: string where
  "ping_request =
     ''{'' @ dq ''jsonrpc'' @ '':'' @ dq ''2.0'' @ '','' @ dq ''id'' @ '':3,''
       @ dq ''method'' @ '':'' @ dq ''ping'' @ ''}''"

definition example_env :: "nat environment" where
  "example_env =
     \<lparr>readTree = readTree_of
        [(ping_notification, JObj [(''jsonrpc'', JStr ''2.0''), (''method'', JStr ''ping'')]),
         (initialized_request,
            JObj [(''jsonrpc'', JStr ''2.0''), (''id'', JNum ''7''),
                  (''method'', JStr ''initialized'')]),
         (versionless_request, JObj [(''id'', JNum ''7''), (''method'', JStr ''ping'')]),
         (unknown_request,
            JObj [(''jsonrpc'', JStr ''2.0''), (''id'', JNum ''1''), (''method'', JStr ''foo'')]),
         (tools_list_request,
            JObj [(''jsonrpc'', JStr ''2.0''), (''id'', JNum ''2''),
                  (''method'', JStr ''tools/list'')]),
         (ping_request,
            JObj [(''jsonrpc'', JStr ''2.0''), (''id'', JNum ''3''), (''method'', JStr ''ping'')]),
         (''{}'', JObj [])],
      currentTimeMillis = ''1700000000000'',
      npe_message = None,
      getResourcesListAsJson = (\<lambda>w. JArr []),
      readResource =
        (\<lambda>uri w. (Inl (IllegalArgumentException (''Recurso no encontrado: '' @ uri)), w))\<rparr>"

definition example_handler :: "nat MCPProtocolHandler" where
  "example_handler = new_MCPProtocolHandler example_manager"

section \<open>Properties of the registry's maps\<close>

lemma map_of_chm_insert:
  "map_of m k = None \<Longrightarrow>
     map_of (chm_insert k v m) k' = (if k' = k then Some v else map_of m k')"
  by (induction m) (auto split: if_splits)

lemma map_of_replace:
  "map_of (map (\<lambda>(k', v'). if k' = k then (k', v) else (k', v')) m) k' =
     (if k' = k then (if map_of m k = None then None else Some v) else map_of m k')"
  by (induction m) auto

lemma chm_get_put:
  "chm_get (chm_put k v m) k' = (if k' = k then Some v else chm_get m k')"
  by (auto simp: chm_get_def chm_put_def map_of_chm_insert map_of_replace)

lemma chm_get_remove:
  "chm_get (chm_remove k m) k' = (if k' = k then None else chm_get m k')"
  unfolding chm_get_def chm_remove_def by (induction m) auto

lemma chm_insert_mem: "(k, v) \<in> set (chm_insert k v m)"
  by (induction m) auto

lemma chm_put_mem: "(k, v) \<in> set (chm_put k v m)"
proof (cases "map_of m k")
  case None
  then show ?thesis by (simp add: chm_put_def chm_insert_mem)
next
  case (Some u)
  then have "(k, u) \<in> set m" by (rule map_of_SomeD)
  then have "(\<lambda>(k', v'). if k' = k then (k', v) else (k', v')) (k, u) \<in>
      set (map (\<lambda>(k', v'). if k' = k then (k', v) else (k', v')) m)"
    by (intro imageI[of _ "set m", folded set_map])
  with Some show ?thesis by (simp add: chm_put_def)
qed

lemma Map_get_set:
  "Map_get (Map_set k v m) k' = (if k' = k then Some v else Map_get m k')"
  by (auto simp: Map_get_def Map_set_def map_of_replace map_add_def split: option.splits)

lemma tools_executeTool: "tools (snd (snd (executeTool k a w tm))) = tools tm"
  by (simp add: executeTool_def Let_def split: option.splits prod.splits sum.splits)

lemma apply_op_keeps_key:
  assumes nk: "\<not> names_key k op"
  shows "chm_get (tools (snd (apply_op s op))) k = chm_get (tools (snd s)) k"
proof (cases s)
  case (Pair w tm)
  show ?thesis
  proof (cases op)
    case (Register t)
    with nk Pair show ?thesis
      by (auto simp: registerTool_def chm_get_put split: option.splits)
  next
    case (Unregister k')
    with nk Pair show ?thesis by (simp add: unregisterTool_def chm_get_remove)
  next
    case (Execute k' a)
    with Pair show ?thesis by (simp add: tools_executeTool)
  qed
qed

lemma run_ops_keeps_key:
  "\<not> list_ex (names_key k) ops \<Longrightarrow>
     chm_get (tools (snd (run_ops ops s))) k = chm_get (tools (snd s)) k"
  unfolding run_ops_def
  by (induction ops arbitrary: s) (simp_all add: apply_op_keeps_key)

lemma apply_op_keeps_tools:
  "\<not> changes_map op \<Longrightarrow> tools (snd (apply_op s op)) = tools (snd s)"
  by (cases s; cases op) (simp_all add: tools_executeTool)

lemma run_ops_keeps_tools:
  "\<not> list_ex changes_map ops \<Longrightarrow> tools (snd (run_ops ops s)) = tools (snd s)"
  unfolding run_ops_def
  by (induction ops arbitrary: s) (simp_all add: apply_op_keeps_tools)

lemma executeTool_registered:
  assumes "chm_get (tools tm) k = Some tool" and "isEnabled tool w"
  shows "executeTool k a w tm =
           (case execute tool a w of
              (Inr result, w') \<Rightarrow> (Inr result, w', tm\<lparr>executionCount := executionCount tm + 1\<rparr>)
            | (Inl e, w') \<Rightarrow>
                (Inl (RuntimeException
                        (''Error ejecutando herramienta '' @ k @ '': ''
                           @ concat_str (getMessage e)) e),
                 w', tm\<lparr>executionCount := executionCount tm + 1,
                        errorCount := errorCount tm + 1\<rparr>))"
  using assms by (simp add: executeTool_def Let_def split: prod.splits sum.splits)

section \<open>The dispatcher on an unregistered name\<close>

text \<open>
  C2. A call of \<open>executeTool\<close> with a name that is not in the registry ends in the
  dispatcher's not-found error: in Java the IllegalArgumentException
  \<open>Herramienta no encontrada: <name>\<close>, in JavaScript the Error
  \<open>Herramienta '<name>' no encontrada\<close>. No handler runs: whatever the tools of the
  registry are, the collaborators' state comes back as it went in. (The Java
  dispatcher counts the execution and the error.)
\<close>

theorem unregistered_name_not_found:
  "(chm_get (tools tm) toolName = None \<longrightarrow>
      executeTool toolName arguments w tm =
        (Inl (IllegalArgumentException (''Herramienta no encontrada: '' @ toolName)), w,
         tm\<lparr>executionCount := executionCount tm + 1, errorCount := errorCount tm + 1\<rparr>))
   \<and> (\<not> Map_has reg toolName \<longrightarrow>
      ToolsRegistry_executeTool toolName args v reg =
        (Inl (JsError ''Error'' (''Herramienta '' @ [CHR 39] @ toolName @ [CHR 39]
                                   @ '' no encontrada'')), v))"
  by (simp add: executeTool_def ToolsRegistry_executeTool_def Let_def)

theorem unregistered_name_not_found_witness:
  "chm_get (tools example_manager) ''nope'' = None
   \<and> executeTool ''nope'' None 0 example_manager =
        (Inl (IllegalArgumentException ''Herramienta no encontrada: nope''), 0,
         example_manager\<lparr>executionCount := 1, errorCount := 1\<rparr>)
   \<and> \<not> Map_has example_registry ''nope''
   \<and> ToolsRegistry_executeTool ''nope'' None (0::nat) example_registry =
        (Inl (JsError ''Error'' (''Herramienta '' @ [CHR 39] @ ''nope'' @ [CHR 39]
                                   @ '' no encontrada'')), 0)"
proof -
  have h1: "chm_get (tools example_manager) ''nope'' = None"
    by (simp add: example_manager_def chm_get_def chm_put_def)
  have h2: "\<not> Map_has example_registry ''nope''"
    by (simp add: example_registry_def Map_has_def Map_set_def)
  from unregistered_name_not_found
    [of example_manager "''nope''" None 0 example_registry None 0]
  show ?thesis using h1 h2 by (simp add: example_manager_def)
qed

section \<open>Handler failures\<close>

text \<open>
  C7, as the claim states it, fails for the JavaScript dispatcher: when a handler
  throws, \<open>ToolsRegistry.executeTool\<close> throws the handler's own error again, not an
  error of the dispatcher that wraps it, and it has no error counter to increment
  (its only state is the map of tools; the call returns the outcome and the
  collaborators' state and nothing else).
\<close>

theorem handler_failure_counterexample:
  "handler failing_descriptor None (0::nat) = (Inl (JsError ''Error'' ''store unreachable''), 1)
   \<and> ToolsRegistry_executeTool ''failing'' None 0 example_registry =
       (Inl (JsError ''Error'' ''store unreachable''), 1)
   \<and> ToolsRegistry_executeTool ''failing'' None 0 example_registry =
       handler failing_descriptor None 0"
proof -
  have s1: "Map_get example_registry ''failing'' = Some failing_descriptor"
    by (simp add: example_registry_def Map_get_set)
  have s2: "handler failing_descriptor None (0::nat) =
              (Inl (JsError ''Error'' ''store unreachable''), 1)"
    by (simp add: failing_descriptor_def)
  have "ToolsRegistry_executeTool ''failing'' None 0 example_registry =
          handler failing_descriptor None 0"
    using s1 by (simp add: ToolsRegistry_executeTool_def Map_has_def Map_get_def)
  with s2 show ?thesis by simp
qed

text \<open>
  C7, amended. When the handler of a registered, enabled tool throws, the Java
  dispatcher (\<open>ToolManager.executeTool\<close>) throws a RuntimeException whose message
  is \<open>Error ejecutando herramienta <name>: \<close> followed by the handler's message
  (\<open>null\<close> for a handler's exception without one) and whose cause is the handler's
  exception itself; its error counter goes up by exactly one (64-bit arithmetic), as
  does its execution counter; the handler's effects on the collaborator stay. The
  JavaScript dispatcher (\<open>ToolsRegistry.executeTool\<close>) throws the handler's error
  again unchanged, with the handler's effects kept, and keeps no error counter.
  Neither swallows the failure.
\<close>

theorem handler_failure_reraised:
  "(chm_get (tools tm) toolName = Some tool \<and> isEnabled tool w
      \<and> execute tool arguments w = (Inl e, w') \<longrightarrow>
      executeTool toolName arguments w tm =
        (Inl (Exn ''RuntimeException''
                (Some (''Error ejecutando herramienta '' @ toolName @ '': ''
                         @ (case getMessage e of None \<Rightarrow> ''null'' | Some m \<Rightarrow> m)))
                (Some e)),
         w', tm\<lparr>executionCount := executionCount tm + 1,
                errorCount := errorCount tm + 1\<rparr>)
      \<and> errorCount (snd (snd (executeTool toolName arguments w tm))) = errorCount tm + 1
      \<and> tools (snd (snd (executeTool toolName arguments w tm))) = tools tm)
   \<and> (Map_get reg nm = Some d \<and> handler d args v = (Inl err, v') \<longrightarrow>
      ToolsRegistry_executeTool nm args v reg = (Inl err, v'))"
  by (simp add: executeTool_registered ToolsRegistry_executeTool_def Map_has_def Map_get_def
      RuntimeException_def concat_str_def)

theorem handler_failure_reraised_witness:
  "executeTool ''db'' None 0 (new_ToolManager\<lparr>tools := chm_put ''db'' (failing_tool ''db'') []\<rparr>) =
     (Inl (Exn ''RuntimeException''
             (Some ''Error ejecutando herramienta db: store unreachable'')
             (Some (Exn ''IOException'' (Some ''store unreachable'') None))),
      1, new_ToolManager\<lparr>tools := chm_put ''db'' (failing_tool ''db'') [],
                         executionCount := 1, errorCount := 1\<rparr>)
   \<and> ToolsRegistry_executeTool ''failing'' None 0 example_registry =
       (Inl (JsError ''Error'' ''store unreachable''), 1)"
proof -
  let ?tm = "new_ToolManager\<lparr>tools := chm_put ''db'' (failing_tool ''db'') []\<rparr> :: nat ToolManager"
  have j1: "chm_get (tools ?tm) ''db'' = Some (failing_tool ''db'')"
    by (simp add: chm_get_put)
  have j2: "isEnabled (failing_tool ''db'') (0::nat)"
    by (simp add: failing_tool_def)
  have j3: "execute (failing_tool ''db'') None 0 =
              (Inl (Exn ''IOException'' (Some ''store unreachable'') None), 1)"
    by (simp add: failing_tool_def)
  have s1: "Map_get example_registry ''failing'' = Some failing_descriptor"
    by (simp add: example_registry_def Map_get_set)
  have s2: "handler failing_descriptor None 0 = (Inl (JsError ''Error'' ''store unreachable''), 1)"
    by (simp add: failing_descriptor_def)
  from handler_failure_reraised
    [of ?tm "''db''" "failing_tool ''db''" 0 None
        "Exn ''IOException'' (Some ''store unreachable'') None" 1
        example_registry "''failing''" failing_descriptor None 0
        "JsError ''Error'' ''store unreachable''" 1]
    j1 j2 j3 s1 s2
  show ?thesis by (simp add: new_ToolManager_def)
qed

section \<open>Arguments and the declared schema\<close>

text \<open>
  C1, as the claim states it, fails: neither dispatcher compares the arguments with
  the tool's \<open>inputSchema\<close>. The \<open>echo\<close> tool declares \<open>message\<close> as required; a
  call without it runs the handler, which answers \<open>Echo: undefined\<close>. In Java a
  tool that declares the same required member runs as well, and its effect on the
  collaborator (here one more run counted) is there. The file-system tool, which
  declares \<open>action\<close> and \<open>path\<close> as required, is run on empty arguments too: the
  refusal is its handler's own exception, which the dispatcher wraps and counts as
  a failed execution.
\<close>

theorem missing_required_field_counterexample:
  "json_get (inputSchema (echo :: nat descriptor)) ''required'' = Some (JArr [JStr ''message''])
   \<and> ToolsRegistry_executeTool ''echo'' (Some (JObj [])) (0::nat) example_registry =
       (Inr (JStr ''Echo: undefined''), 0)
   \<and> json_get (getInputSchema (counting_tool ''echo'')) ''required'' = Some (JArr [JStr ''message''])
   \<and> executeTool ''echo'' (Some (JObj [])) 0 example_manager =
       (Inr ''{}'', 1, example_manager\<lparr>executionCount := 1\<rparr>)
   \<and> executeTool ''filesystem'' (Some (JObj [])) [] filesystem_manager =
       (Inl (RuntimeException
               (''Error ejecutando herramienta filesystem: Falta el argumento ''
                  @ quoted ''action'')
               (IllegalArgumentException (''Falta el argumento '' @ quoted ''action''))),
        [], filesystem_manager\<lparr>executionCount := 1, errorCount := 1\<rparr>)"
proof -
  let ?fs = "FileSystemTool unix_paths workspace record_call"
  have f1: "chm_get (tools filesystem_manager) ''filesystem'' = Some ?fs"
    by (simp add: filesystem_manager_def chm_get_put)
  have f2: "isEnabled ?fs []"
    by (simp add: FileSystemTool_def)
  have f3: "execute ?fs (Some (JObj [])) [] =
              (Inl (IllegalArgumentException (''Falta el argumento '' @ quoted ''action'')), [])"
    by (simp add: FileSystemTool_def FileSystemTool_execute_def selected_call_def
        validateArguments_def json_has_def)
  have f4: "executionCount filesystem_manager = 0" "errorCount filesystem_manager = 0"
    by (simp_all add: filesystem_manager_def)
  have f: "executeTool ''filesystem'' (Some (JObj [])) [] filesystem_manager =
       (Inl (RuntimeException
               (''Error ejecutando herramienta filesystem: Falta el argumento ''
                  @ quoted ''action'')
               (IllegalArgumentException (''Falta el argumento '' @ quoted ''action''))),
        [], filesystem_manager\<lparr>executionCount := 1, errorCount := 1\<rparr>)"
    unfolding executeTool_registered [OF f1 f2] f3
    by (simp add: f4 concat_str_def IllegalArgumentException_def)
  have a: "Map_get example_registry ''echo'' = Some (echo :: nat descriptor)"
    by (simp add: example_registry_def Map_get_set)
  have b: "chm_get (tools example_manager) ''echo'' = Some (counting_tool ''echo'')"
    by (simp add: example_manager_def chm_get_put)
  have c: "isEnabled (counting_tool ''echo'') (0::nat)"
    by (simp add: counting_tool_def)
  have d: "executeTool ''echo'' (Some (JObj [])) 0 example_manager =
             (Inr ''{}'', 1, example_manager\<lparr>executionCount := 1\<rparr>)"
  proof -
    have z: "executionCount example_manager = 0" by (simp add: example_manager_def)
    show ?thesis
      unfolding executeTool_registered [OF b c] by (simp add: counting_tool_def z)
  qed
  have e: "ToolsRegistry_executeTool ''echo'' (Some (JObj [])) (0::nat) example_registry =
             (Inr (JStr ''Echo: undefined''), 0)"
    using a by (simp add: ToolsRegistry_executeTool_def Map_has_def Map_get_def echo_def
        echo_handler_def template_value_def)
  show ?thesis
    using d e f by (simp add: echo_def counting_tool_def message_schema_def)
qed

text \<open>
  C1, amended. The dispatcher does not validate the arguments against the schema:
  for a registered tool (in Java also enabled at the call) the handler runs on the
  arguments exactly as they were sent, whatever the tool's schema declares, and the
  outcome is the handler's own: its value is returned, its effect on the
  collaborator stays, and its exception is thrown again (in Java wrapped in a
  RuntimeException). Checking the arguments is left to the handler.
\<close>

theorem raw_arguments_reach_handler:
  "(chm_get (tools tm) toolName = Some tool \<and> isEnabled tool w \<longrightarrow>
      fst (executeTool toolName arguments w tm) =
        (case fst (execute tool arguments w) of
           Inr result \<Rightarrow> Inr result
         | Inl e \<Rightarrow>
             Inl (RuntimeException
                    (''Error ejecutando herramienta '' @ toolName @ '': ''
                       @ concat_str (getMessage e)) e))
      \<and> fst (snd (executeTool toolName arguments w tm)) = snd (execute tool arguments w))
   \<and> (Map_get reg nm = Some d \<longrightarrow>
      ToolsRegistry_executeTool nm args v reg = handler d args v)"
  by (auto simp: executeTool_registered ToolsRegistry_executeTool_def Map_has_def Map_get_def
      split: prod.splits sum.splits)

theorem raw_arguments_reach_handler_witness:
  "fst (executeTool ''filesystem'' (Some (JObj [(''path'', JStr ''notes.txt'')])) 0 example_manager)
     = Inr ''{}''
   \<and> fst (snd (executeTool ''filesystem'' (Some (JObj [(''path'', JStr ''notes.txt'')])) 0
                 example_manager)) = 1
   \<and> ToolsRegistry_executeTool ''echo'' (Some (JObj [(''message'', JStr ''hi'')])) (0::nat)
        example_registry = (Inr (JStr ''Echo: hi''), 0)"
proof -
  have a: "Map_get example_registry ''echo'' = Some (echo :: nat descriptor)"
    by (simp add: example_registry_def Map_get_set)
  have b: "chm_get (tools example_manager) ''filesystem'' = Some (counting_tool ''filesystem'')"
    by (simp add: example_manager_def chm_get_put)
  have c: "isEnabled (counting_tool ''filesystem'') (0::nat)"
    by (simp add: counting_tool_def)
  from raw_arguments_reach_handler
    [of example_manager "''filesystem''" "counting_tool ''filesystem''" 0
        "Some (JObj [(''path'', JStr ''notes.txt'')])"
        example_registry "''echo''" echo "Some (JObj [(''message'', JStr ''hi'')])" 0]
    a b c
  show ?thesis
    by (simp add: counting_tool_def echo_def echo_handler_def template_value_def)
qed

section \<open>Registration\<close>

lemma chm_remove_absent: "map_of m k = None \<Longrightarrow> chm_remove k m = m"
  unfolding chm_remove_def by (induction m) (auto split: if_splits)

lemma registerTool_accepts:
  assumes "getName t = Some k" and "trim k \<noteq> []" and "isEnabled t w"
  shows "registerTool (Some t) w tm = Inr (tm\<lparr>tools := chm_put k t (tools tm)\<rparr>)"
  using assms by (simp add: registerTool_def)

text \<open>
  C8, as the claim states it, fails: a name can be non-empty and the descriptor
  still not be inserted. A name of one space is refused like the empty one, and a
  tool that answers \<open>isEnabled() = false\<close> at registration is skipped without an
  error: the registry stays empty.
\<close>

theorem register_nonempty_name_counterexample:
  "getName (counting_tool '' '') = Some '' '' \<and> '' '' \<noteq> []
   \<and> registerTool (Some (counting_tool '' '')) 0 new_ToolManager =
       Inl (IllegalArgumentException ''El nombre de la herramienta no puede estar vacio'')
   \<and> getName (switch_tool ''calc'') = Some ''calc'' \<and> ''calc'' \<noteq> []
   \<and> registerTool (Some (switch_tool ''calc'')) 1 new_ToolManager = Inr new_ToolManager
   \<and> chm_get (tools (new_ToolManager :: nat ToolManager)) ''calc'' = None
   \<and> getToolsListAsJson (new_ToolManager :: nat ToolManager) = JArr []"
  by (simp add: registerTool_def counting_tool_def switch_tool_def trim_def is_space_def
      new_ToolManager_def chm_get_def getToolsListAsJson_def chm_values_def)

text \<open>
  C8, amended. \<open>registerTool\<close> fails with an IllegalArgumentException, and the
  registry is as before, for a null tool and for a name that is null, empty or made
  of white space only. A tool that is disabled when it is registered is skipped:
  no error, registry unchanged. Any other tool is stored under its name, replacing
  what was there: the lookup of the name returns it, \<open>hasToolEnabled\<close> holds, the
  listing has its node, and the other names are as before.
\<close>

theorem registerTool_outcomes:
  "registerTool None w tm = Inl (IllegalArgumentException ''La herramienta no puede ser null'')
   \<and> ((getName t = None \<or> (\<exists>k. getName t = Some k \<and> trim k = [])) \<longrightarrow>
        registerTool (Some t) w tm =
          Inl (IllegalArgumentException ''El nombre de la herramienta no puede estar vacio'')
        \<and> apply_op (w, tm) (Register (Some t)) = (w, tm))
   \<and> (getName t = Some k \<and> trim k \<noteq> [] \<and> \<not> isEnabled t w \<longrightarrow>
        registerTool (Some t) w tm = Inr tm)
   \<and> (getName t = Some k \<and> trim k \<noteq> [] \<and> isEnabled t w \<longrightarrow>
        (\<exists>tm'. registerTool (Some t) w tm = Inr tm'
           \<and> chm_get (tools tm') k = Some t
           \<and> hasToolEnabled k w tm'
           \<and> (\<exists>ns. getToolsListAsJson tm' = JArr ns \<and> tool_node t \<in> set ns)
           \<and> (\<forall>k'. k' \<noteq> k \<longrightarrow> chm_get (tools tm') k' = chm_get (tools tm) k')))"
proof (intro conjI impI)
  show "registerTool None w tm =
          Inl (IllegalArgumentException ''La herramienta no puede ser null'')"
    by (simp add: registerTool_def)
next
  assume "getName t = None \<or> (\<exists>k. getName t = Some k \<and> trim k = [])"
  then show "registerTool (Some t) w tm =
      Inl (IllegalArgumentException ''El nombre de la herramienta no puede estar vacio'')"
    by (auto simp: registerTool_def)
  then show "apply_op (w, tm) (Register (Some t)) = (w, tm)"
    by simp
next
  assume "getName t = Some k \<and> trim k \<noteq> [] \<and> \<not> isEnabled t w"
  then show "registerTool (Some t) w tm = Inr tm"
    by (simp add: registerTool_def)
next
  assume a: "getName t = Some k \<and> trim k \<noteq> [] \<and> isEnabled t w"
  let ?tm = "tm\<lparr>tools := chm_put k t (tools tm)\<rparr>"
  have r: "registerTool (Some t) w tm = Inr ?tm"
    using a by (simp add: registerTool_accepts)
  have g: "chm_get (tools ?tm) k = Some t"
    by (simp add: chm_get_put)
  have h: "hasToolEnabled k w ?tm"
    using a g by (simp add: hasToolEnabled_def)
  have "t \<in> snd ` set (chm_put k t (tools tm))"
    using chm_put_mem [of k t "tools tm"] by force
  then have l: "\<exists>ns. getToolsListAsJson ?tm = JArr ns \<and> tool_node t \<in> set ns"
    by (auto simp: getToolsListAsJson_def chm_values_def)
  have o: "\<forall>k'. k' \<noteq> k \<longrightarrow> chm_get (tools ?tm) k' = chm_get (tools tm) k'"
    by (simp add: chm_get_put)
  from r g h l o
  show "\<exists>tm'. registerTool (Some t) w tm = Inr tm'
           \<and> chm_get (tools tm') k = Some t
           \<and> hasToolEnabled k w tm'
           \<and> (\<exists>ns. getToolsListAsJson tm' = JArr ns \<and> tool_node t \<in> set ns)
           \<and> (\<forall>k'. k' \<noteq> k \<longrightarrow> chm_get (tools tm') k' = chm_get (tools tm) k')"
    by blast
qed

theorem registerTool_outcomes_witness:
  "apply_op (0, example_manager) (Register (Some (counting_tool ''   ''))) = (0, example_manager)
   \<and> registerTool (Some (switch_tool ''echo'')) 3 example_manager = Inr example_manager
   \<and> (\<exists>tm'. registerTool (Some (switch_tool ''echo'')) 0 example_manager = Inr tm'
         \<and> chm_get (tools tm') ''echo'' = Some (switch_tool ''echo'')
         \<and> hasToolEnabled ''echo'' 0 tm'
         \<and> chm_get (tools tm') ''filesystem'' = chm_get (tools example_manager) ''filesystem'')"
proof -
  have b: "getName (counting_tool ''   '') = None
           \<or> (\<exists>k. getName (counting_tool ''   '') = Some k \<and> trim k = [])"
    by (simp add: counting_tool_def trim_def is_space_def)
  have d: "getName (switch_tool ''echo'') = Some ''echo'' \<and> trim ''echo'' \<noteq> []
           \<and> \<not> isEnabled (switch_tool ''echo'') (3::nat)"
    by (simp add: switch_tool_def trim_def is_space_def)
  have e: "getName (switch_tool ''echo'') = Some ''echo'' \<and> trim ''echo'' \<noteq> []
           \<and> isEnabled (switch_tool ''echo'') (0::nat)"
    by (simp add: switch_tool_def trim_def is_space_def)
  have 1: "apply_op (0, example_manager) (Register (Some (counting_tool ''   ''))) =
             (0, example_manager)"
    using registerTool_outcomes [of 0 example_manager "counting_tool ''   ''"] b by blast
  have 2: "registerTool (Some (switch_tool ''echo'')) 3 example_manager = Inr example_manager"
    using registerTool_outcomes [of 3 example_manager "switch_tool ''echo''" "''echo''"] d
    by blast
  have 3: "\<exists>tm'. registerTool (Some (switch_tool ''echo'')) 0 example_manager = Inr tm'
         \<and> chm_get (tools tm') ''echo'' = Some (switch_tool ''echo'')
         \<and> hasToolEnabled ''echo'' 0 tm'
         \<and> chm_get (tools tm') ''filesystem'' = chm_get (tools example_manager) ''filesystem''"
  proof -
    from registerTool_outcomes [of 0 example_manager "switch_tool ''echo''" "''echo''"] e
    obtain tm' where
      "registerTool (Some (switch_tool ''echo'')) 0 example_manager = Inr tm'"
      "chm_get (tools tm') ''echo'' = Some (switch_tool ''echo'')"
      "hasToolEnabled ''echo'' 0 tm'"
      "\<forall>k'. k' \<noteq> ''echo'' \<longrightarrow> chm_get (tools tm') k' = chm_get (tools example_manager) k'"
      by blast
    then show ?thesis by auto
  qed
  from 1 2 3 show ?thesis by blast
qed

section \<open>Lookup after registration\<close>

lemma set_others_keep:
  "list_all (\<lambda>(k', d'). k' \<noteq> k) sets \<Longrightarrow>
     Map_get (foldl (\<lambda>m (k', d'). Map_set k' d' m) m0 sets) k = Map_get m0 k"
  by (induction sets arbitrary: m0) (auto simp: Map_get_set)

text \<open>
  C9, as the claim states it, fails for a descriptor that \<open>registerTool\<close> does not
  store: registering a tool that is disabled at that moment under a name already
  taken leaves the earlier tool in place, and the lookup returns the earlier one.
\<close>

theorem lookup_after_register_counterexample:
  "chm_get (tools (snd (run_ops [Register (Some (counting_tool ''calc'')),
                                  Register (Some (switch_tool ''calc''))]
                         (1, new_ToolManager)))) ''calc''
     = Some (counting_tool ''calc'')
   \<and> counting_tool ''calc'' \<noteq> switch_tool ''calc''"
proof -
  have "counting_tool ''calc'' \<noteq> switch_tool ''calc''"
  proof
    assume "counting_tool ''calc'' = switch_tool ''calc''"
    then have "getDescription (counting_tool ''calc'') = getDescription (switch_tool ''calc'')"
      by simp
    then show False by (simp add: counting_tool_def switch_tool_def)
  qed
  moreover have "registerTool (Some (switch_tool ''calc'')) (1::nat) tm = Inr tm" for tm
    by (simp add: registerTool_def switch_tool_def trim_def is_space_def)
  moreover have "registerTool (Some (counting_tool ''calc'')) (1::nat) new_ToolManager =
      Inr (new_ToolManager\<lparr>tools := chm_put ''calc'' (counting_tool ''calc'') []\<rparr>)"
    by (simp add: registerTool_def counting_tool_def trim_def is_space_def new_ToolManager_def)
  ultimately show ?thesis
    by (simp add: run_ops_def chm_get_put)
qed

text \<open>
  C9, amended. For every descriptor that \<open>registerTool\<close> stores (a name that is not
  blank, enabled at the registration), the lookup of its name returns that very
  descriptor after the registration and after any further sequence of registrations,
  removals and executions in which no registration carries that name and no removal
  names it; after \<open>unregisterTool\<close> of the name the lookup returns nothing, and
  \<open>unregisterTool\<close> of an absent name changes nothing. In JavaScript, after
  \<open>tools.set(name, descriptor)\<close> the lookup \<open>getToolInfo(name)\<close> returns that
  descriptor until the name is set again.
\<close>

theorem lookup_after_register:
  "(getName d = Some k \<and> trim k \<noteq> [] \<and> isEnabled d w \<and> \<not> list_ex (names_key k) ops \<longrightarrow>
      (\<exists>tm1. registerTool (Some d) w tm = Inr tm1
         \<and> chm_get (tools tm1) k = Some d
         \<and> chm_get (tools (snd (run_ops ops (w, tm1)))) k = Some d
         \<and> chm_get (tools (unregisterTool k (snd (run_ops ops (w, tm1))))) k = None))
   \<and> (chm_get (tools tm) k = None \<longrightarrow> unregisterTool k tm = tm)
   \<and> (list_all (\<lambda>(k', d'). k' \<noteq> nm) sets \<longrightarrow>
        ToolsRegistry_getToolInfo nm
          (foldl (\<lambda>m (k', d'). Map_set k' d' m) (Map_set nm dj reg) sets) = Some dj)"
proof (intro conjI impI)
  assume a: "getName d = Some k \<and> trim k \<noteq> [] \<and> isEnabled d w \<and> \<not> list_ex (names_key k) ops"
  let ?tm1 = "tm\<lparr>tools := chm_put k d (tools tm)\<rparr>"
  have r: "registerTool (Some d) w tm = Inr ?tm1"
    using a by (simp add: registerTool_accepts)
  have g: "chm_get (tools ?tm1) k = Some d"
    by (simp add: chm_get_put)
  have s: "chm_get (tools (snd (run_ops ops (w, ?tm1)))) k = Some d"
    using a g run_ops_keeps_key [of k ops "(w, ?tm1)"] by simp
  have u: "chm_get (tools (unregisterTool k (snd (run_ops ops (w, ?tm1))))) k = None"
    by (simp add: unregisterTool_def chm_get_remove)
  from r g s u
  show "\<exists>tm1. registerTool (Some d) w tm = Inr tm1
         \<and> chm_get (tools tm1) k = Some d
         \<and> chm_get (tools (snd (run_ops ops (w, tm1)))) k = Some d
         \<and> chm_get (tools (unregisterTool k (snd (run_ops ops (w, tm1))))) k = None"
    by blast
next
  assume "chm_get (tools tm) k = None"
  then show "unregisterTool k tm = tm"
    by (simp add: unregisterTool_def chm_get_def chm_remove_absent)
next
  assume "list_all (\<lambda>(k', d'). k' \<noteq> nm) sets"
  then show "ToolsRegistry_getToolInfo nm
      (foldl (\<lambda>m (k', d'). Map_set k' d' m) (Map_set nm dj reg) sets) = Some dj"
    by (simp add: ToolsRegistry_getToolInfo_def set_others_keep Map_get_set)
qed

lemma chm_get_Nil: "chm_get [] k = None"
  by (simp add: chm_get_def)

theorem lookup_after_register_witness:
  "(\<exists>tm1. registerTool (Some (counting_tool ''calc'')) 0 example_manager = Inr tm1
      \<and> chm_get (tools (snd (run_ops [Execute ''calc'' None,
                                       Register (Some (counting_tool ''other'')),
                                       Unregister ''echo''] (0, tm1)))) ''calc''
          = Some (counting_tool ''calc'')
      \<and> chm_get (tools (unregisterTool ''calc''
            (snd (run_ops [Execute ''calc'' None,
                           Register (Some (counting_tool ''other'')),
                           Unregister ''echo''] (0, tm1))))) ''calc'' = None)
   \<and> unregisterTool ''nope'' example_manager = example_manager
   \<and> ToolsRegistry_getToolInfo ''echo'' example_registry = Some echo"
proof -
  let ?ops = "[Execute ''calc'' None, Register (Some (counting_tool ''other'')),
               Unregister ''echo''] :: nat registry_op list"
  have h: "getName (counting_tool ''calc'') = Some ''calc'' \<and> trim ''calc'' \<noteq> []
           \<and> isEnabled (counting_tool ''calc'') (0::nat) \<and> \<not> list_ex (names_key ''calc'') ?ops"
    by (simp add: counting_tool_def trim_def is_space_def)
  have n: "chm_get (tools example_manager) ''nope'' = None"
    by (simp add: example_manager_def chm_get_put chm_get_Nil)
  have l: "list_all (\<lambda>(k', d'). k' \<noteq> ''echo'') [(''failing'', failing_descriptor)]"
    by simp
  have 1: "\<exists>tm1. registerTool (Some (counting_tool ''calc'')) 0 example_manager = Inr tm1
      \<and> chm_get (tools (snd (run_ops ?ops (0, tm1)))) ''calc'' = Some (counting_tool ''calc'')
      \<and> chm_get (tools (unregisterTool ''calc'' (snd (run_ops ?ops (0, tm1))))) ''calc'' = None"
    using lookup_after_register
      [of "counting_tool ''calc''" "''calc''" 0 ?ops example_manager] h by blast
  have 2: "unregisterTool ''nope'' example_manager = example_manager"
    using lookup_after_register
      [of "counting_tool ''calc''" "''nope''" 0 "[]" example_manager "''echo''" "[]" echo "[]"] n
    by blast
  have 3: "ToolsRegistry_getToolInfo ''echo'' example_registry = Some (echo :: nat descriptor)"
    using lookup_after_register
      [of "counting_tool ''calc''" "''nope''" 0 "[]" example_manager
          "''echo''" "[(''failing'', failing_descriptor)]" echo "[]"] l
    by (simp add: example_registry_def)
  from 1 2 3 show ?thesis by blast
qed

section \<open>The listing\<close>

lemma set_chm_insert: "set (chm_insert k v m) = insert (k, v) (set m)"
  by (induction k v m rule: chm_insert.induct) (simp_all add: insert_commute)

lemma bin_ordered_insert: "bin_ordered m \<Longrightarrow> bin_ordered (chm_insert k v m)"
proof (induction m)
  case Nil
  then show ?case by (simp add: bin_ordered_def)
next
  case (Cons e m)
  obtain k' v' where e: "e = (k', v')" by (cases e)
  show ?case
  proof (cases "bin_index k < bin_index k'")
    case True
    with Cons.prems e show ?thesis
      by (auto simp: bin_ordered_def)
  next
    case False
    have tl: "bin_ordered (chm_insert k v m)"
      using Cons by (simp add: bin_ordered_def)
    have "\<forall>x \<in> set (chm_insert k v m). bin_index k' \<le> bin_index (fst x)"
    proof
      fix x assume "x \<in> set (chm_insert k v m)"
      then have "fst x \<in> insert k (fst ` set m)"
        unfolding set_chm_insert by auto
      with False Cons.prems e show "bin_index k' \<le> bin_index (fst x)"
        by (auto simp: bin_ordered_def)
    qed
    with tl False e show ?thesis
      by (auto simp: bin_ordered_def)
  qed
qed

lemma replace_keeps_keys:
  "map fst (map (\<lambda>(k', v'). if k' = k then (k', v) else (k', v')) m) = map fst m"
  by (induction m) auto

lemma bin_ordered_keys: "bin_ordered m = sorted (map bin_index (map fst m))"
  by (simp add: bin_ordered_def comp_def case_prod_unfold)

lemma bin_ordered_replace:
  "bin_ordered m \<Longrightarrow>
     bin_ordered (map (\<lambda>(k', v'). if k' = k then (k', v) else (k', v')) m)"
  unfolding bin_ordered_keys replace_keeps_keys .

lemma bin_ordered_put: "bin_ordered m \<Longrightarrow> bin_ordered (chm_put k v m)"
  by (simp add: chm_put_def bin_ordered_insert bin_ordered_replace)

lemma bin_ordered_remove: "bin_ordered m \<Longrightarrow> bin_ordered (chm_remove k m)"
  unfolding bin_ordered_keys chm_remove_def
  by (induction m) (auto split: if_splits)

lemma bin_ordered_apply_op:
  "bin_ordered (tools (snd s)) \<Longrightarrow> bin_ordered (tools (snd (apply_op s op)))"
proof (cases s)
  case (Pair w tm)
  assume b: "bin_ordered (tools (snd s))"
  show ?thesis
  proof (cases op)
    case (Register t)
    with b Pair show ?thesis
      by (auto simp: registerTool_def bin_ordered_put split: option.splits)
  next
    case (Unregister k)
    with b Pair show ?thesis by (simp add: unregisterTool_def bin_ordered_remove)
  next
    case (Execute k a)
    with b Pair show ?thesis by (simp add: tools_executeTool)
  qed
qed

lemma bin_ordered_run_ops:
  "bin_ordered (tools (snd s)) \<Longrightarrow> bin_ordered (tools (snd (run_ops ops s)))"
  unfolding run_ops_def
  by (induction ops arbitrary: s) (simp_all add: bin_ordered_apply_op)

lemma set_all_fresh:
  "distinct (map name ds) \<Longrightarrow> \<forall>d \<in> set ds. map_of m (name d) = None \<Longrightarrow>
     set_all ds m = m @ map (\<lambda>d. (name d, d)) ds"
proof (induction ds arbitrary: m)
  case Nil
  then show ?case by (simp add: set_all_def)
next
  case (Cons d ds)
  have s: "Map_set (name d) d m = m @ [(name d, d)]"
    using Cons.prems by (simp add: Map_set_def)
  have f: "\<forall>d' \<in> set ds. map_of (m @ [(name d, d)]) (name d') = None"
  proof
    fix d' assume m: "d' \<in> set ds"
    have "name d \<notin> set (map name ds)" using Cons.prems(1) by simp
    moreover have "name d' \<in> set (map name ds)" using m by simp
    ultimately have "name d' \<noteq> name d" by metis
    moreover have "map_of m (name d') = None" using Cons.prems(2) m by simp
    ultimately show "map_of (m @ [(name d, d)]) (name d') = None"
      by (simp add: map_add_def)
  qed
  have "set_all (d # ds) m = set_all ds (m @ [(name d, d)])"
    by (simp add: set_all_def s)
  also have "\<dots> = (m @ [(name d, d)]) @ map (\<lambda>d. (name d, d)) ds"
    using Cons.IH [of "m @ [(name d, d)]"] Cons.prems f by simp
  finally show ?case by simp
qed

lemma keyed_put: "keyed m \<Longrightarrow> getName t = Some k \<Longrightarrow> keyed (chm_put k t m)"
proof -
  assume m: "keyed m" and t: "getName t = Some k"
  have r: "keyed (map (\<lambda>(k', v'). if k' = k then (k', t) else (k', v')) m)"
    using m t unfolding keyed_def by (induction m) (auto split: if_splits)
  have i: "keyed (chm_insert k t m)"
    using m t unfolding keyed_def list_all_iff set_chm_insert by auto
  show ?thesis
    using r i by (simp add: chm_put_def)
qed

lemma keyed_remove: "keyed m \<Longrightarrow> keyed (chm_remove k m)"
  unfolding keyed_def chm_remove_def list_all_iff by auto

lemma keyed_apply_op: "keyed (tools (snd s)) \<Longrightarrow> keyed (tools (snd (apply_op s op)))"
proof (cases s)
  case (Pair w tm)
  assume b: "keyed (tools (snd s))"
  show ?thesis
  proof (cases op)
    case (Register t)
    with b Pair show ?thesis
      by (auto simp: registerTool_def keyed_put split: option.splits)
  next
    case (Unregister k)
    with b Pair show ?thesis by (simp add: unregisterTool_def keyed_remove)
  next
    case (Execute k a)
    with b Pair show ?thesis by (simp add: tools_executeTool)
  qed
qed

lemma keyed_run_ops: "keyed (tools (snd s)) \<Longrightarrow> keyed (tools (snd (run_ops ops s)))"
  unfolding run_ops_def
  by (induction ops arbitrary: s) (simp_all add: keyed_apply_op)

lemma listed_names_keyed:
  "keyed (tools tm) \<Longrightarrow> listed_names (getToolsListAsJson tm) = map fst (tools tm)"
proof -
  have "keyed m \<Longrightarrow> node_names (map tool_node (map snd m)) = map fst m" for m :: "(string \<times> 'a MCPTool) list"
    unfolding keyed_def node_names_def
    by (induction m) (auto simp: tool_node_def json_path_def put_string_def)
  then show "keyed (tools tm) \<Longrightarrow> listed_names (getToolsListAsJson tm) = map fst (tools tm)"
    by (simp add: getToolsListAsJson_def chm_values_def)
qed

lemma keys_Map_set:
  "map fst (Map_set k v m) = (if k \<in> set (map fst m) then map fst m else map fst m @ [k])"
proof (cases "map_of m k")
  case None
  then have "k \<notin> set (map fst m)" by (simp add: map_of_eq_None_iff)
  with None show ?thesis by (simp add: Map_set_def)
next
  case (Some u)
  then have "k \<in> set (map fst m)"
    using map_of_eq_None_iff [of m k] by auto
  moreover have "map fst (Map_set k v m) = map fst m"
    unfolding Map_set_def using Some replace_keeps_keys [of k v m] by simp
  ultimately show ?thesis by simp
qed

lemma keys_set_all:
  "map fst (set_all ds reg) = insertion_order (map fst reg) (map name ds)"
proof (induction ds arbitrary: reg)
  case Nil
  show ?case by (simp add: set_all_def)
next
  case (Cons d ds)
  have "set_all (d # ds) reg = set_all ds (Map_set (name d) d reg)"
    by (simp add: set_all_def)
  then show ?case
    using Cons.IH [of "Map_set (name d) d reg"] by (simp add: keys_Map_set)
qed

lemma named_Map_set:
  "list_all (\<lambda>(k, d). name d = k) m \<Longrightarrow> list_all (\<lambda>(k, d). name d = k) (Map_set (name e) e m)"
proof -
  assume m: "list_all (\<lambda>(k, d). name d = k) m"
  have "list_all (\<lambda>(k, d). name d = k)
          (map (\<lambda>(k', v'). if k' = name e then (k', e) else (k', v')) m)"
    using m by (induction m) (auto split: if_splits)
  with m show ?thesis by (simp add: Map_set_def)
qed

lemma named_set_all:
  "list_all (\<lambda>(k, d). name d = k) reg \<Longrightarrow> list_all (\<lambda>(k, d). name d = k) (set_all ds reg)"
  unfolding set_all_def
  by (induction ds arbitrary: reg) (simp_all add: named_Map_set)

lemma node_names_named:
  "list_all (\<lambda>(k, d). name d = k) reg \<Longrightarrow> node_names (getAvailableTools reg) = map fst reg"
  unfolding node_names_def getAvailableTools_def Map_values_def
  by (induction reg) (auto simp: json_path_def)

section \<open>Requests and responses\<close>

lemma response_id_error [simp]:
  "response_id (createErrorResponse rid c m d) = Some (set_node rid)"
  by (simp add: response_id_def createErrorResponse_def)

lemma response_id_result [simp]:
  "response_id (result_response rid x) = Some (set_node rid)"
  by (simp add: response_id_def result_response_def)

lemma response_id_handleToolsCall:
  "response_id (fst (handleToolsCall env st w rid params)) = Some (set_node rid)"
  by (simp add: handleToolsCall_def not_initialized_def Let_def
      split: option.splits prod.splits sum.splits)

lemma response_id_handleResourcesRead:
  "response_id (fst (handleResourcesRead env st w rid params)) = Some (set_node rid)"
  by (simp add: handleResourcesRead_def not_initialized_def
      split: option.splits prod.splits sum.splits)

lemma response_id_handleToolsList:
  "response_id (handleToolsList st rid) = Some (set_node rid)"
  by (simp add: handleToolsList_def not_initialized_def)

lemma response_id_handleResourcesList:
  "response_id (handleResourcesList env st w rid) = Some (set_node rid)"
  by (simp add: handleResourcesList_def not_initialized_def)

lemma handleMessage_well_formed:
  assumes "readTree env message = Inr m" and "well_formed m"
  shows "handleMessage env st w message =
    (if method_of m = ''initialize'' then
       (Some (handleInitialize st (id_of m) (json_get m ''params'')), w, st)
     else if method_of m = ''initialized'' then (None, w, st\<lparr>isInitialized := True\<rparr>)
     else if method_of m = ''tools/list'' then (Some (handleToolsList st (id_of m)), w, st)
     else if method_of m = ''tools/call'' then
       (Some (fst (handleToolsCall env st w (id_of m) (json_get m ''params''))),
        snd (handleToolsCall env st w (id_of m) (json_get m ''params'')))
     else if method_of m = ''resources/list'' then
       (Some (handleResourcesList env st w (id_of m)), w, st)
     else if method_of m = ''resources/read'' then
       (Some (fst (handleResourcesRead env st w (id_of m) (json_get m ''params''))),
        snd (handleResourcesRead env st w (id_of m) (json_get m ''params'')), st)
     else if method_of m = ''resources/updated'' then (None, w, st)
     else if method_of m = ''ping'' then (Some (handlePing env st (id_of m)), w, st)
     else if method_of m = ''notifications/initialized'' then (None, w, st)
     else (Some (createErrorResponse (id_of m) ''-32601'' ''Method not found''
                   (Some (''Metodo no implementado: '' @ method_of m))), w, st))"
  using assms
  by (simp add: handleMessage_def well_formed_def method_of_def id_of_def Let_def
      handleInitialized_def split: prod.splits)

text \<open>
  C3, as the claim states it, fails in both directions: whether a message is
  answered is decided by its method, not by its id. A \<open>ping\<close> without an id (a
  notification) is answered, under the id null; a message with the id 7 and the
  method \<open>initialized\<close> is answered with nothing; and a message with the id 7 but
  without the \<open>jsonrpc\<close> member is answered under the id null, not 7.
\<close>

theorem response_per_request_counterexample:
  "id_of (JObj [(''jsonrpc'', JStr ''2.0''), (''method'', JStr ''ping'')]) = None
   \<and> fst (handleMessage example_env example_handler 0 ping_notification) =
       Some (result_response None
               (JObj [(''status'', JStr ''ok''),
                      (''server'', JStr ''universal-mcp-server-java''),
                      (''version'', JStr ''1.0.0''),
                      (''timestamp'', JNum ''1700000000000'')]))
   \<and> id_of (JObj [(''jsonrpc'', JStr ''2.0''), (''id'', JNum ''7''),
                  (''method'', JStr ''initialized'')]) = Some (JNum ''7'')
   \<and> fst (handleMessage example_env example_handler 0 initialized_request) = None
   \<and> id_of (JObj [(''id'', JNum ''7''), (''method'', JStr ''ping'')]) = Some (JNum ''7'')
   \<and> fst (handleMessage example_env example_handler 0 versionless_request) =
       Some (createErrorResponse None ''-32600'' ''Invalid Request''
               (Some ''Mensaje JSON-RPC invalido''))
   \<and> response_id (createErrorResponse None ''-32600'' ''Invalid Request''
                     (Some ''Mensaje JSON-RPC invalido'')) = Some JNull"
  by (simp add: handleMessage_def example_env_def readTree_of_def ping_notification_def
      initialized_request_def versionless_request_def unknown_request_def
      tools_list_request_def ping_request_def dq_def json_has_def json_path_def
      handlePing_def handleInitialized_def example_handler_def new_MCPProtocolHandler_def
      id_of_def set_node_def)

text \<open>
  C3, amended. For every message that parses and carries \<open>"jsonrpc":"2.0"\<close>: if
  its method is \<open>initialized\<close>, \<open>resources/updated\<close> or
  \<open>notifications/initialized\<close>, no response is produced, with or without an id;
  for every other method exactly one response is produced, and it carries the
  message's id, error responses included (JSON null when the message has no id).
\<close>

theorem response_per_request:
  "readTree env message = Inr m \<and> well_formed m \<longrightarrow>
     (if method_of m \<in> set silent_methods
      then fst (handleMessage env st w message) = None
      else (\<exists>r. fst (handleMessage env st w message) = Some r
               \<and> response_id r = Some (set_node (id_of m))))"
proof
  assume a: "readTree env message = Inr m \<and> well_formed m"
  then have h: "handleMessage env st w message =
    (if method_of m = ''initialize'' then
       (Some (handleInitialize st (id_of m) (json_get m ''params'')), w, st)
     else if method_of m = ''initialized'' then (None, w, st\<lparr>isInitialized := True\<rparr>)
     else if method_of m = ''tools/list'' then (Some (handleToolsList st (id_of m)), w, st)
     else if method_of m = ''tools/call'' then
       (Some (fst (handleToolsCall env st w (id_of m) (json_get m ''params''))),
        snd (handleToolsCall env st w (id_of m) (json_get m ''params'')))
     else if method_of m = ''resources/list'' then
       (Some (handleResourcesList env st w (id_of m)), w, st)
     else if method_of m = ''resources/read'' then
       (Some (fst (handleResourcesRead env st w (id_of m) (json_get m ''params''))),
        snd (handleResourcesRead env st w (id_of m) (json_get m ''params'')), st)
     else if method_of m = ''resources/updated'' then (None, w, st)
     else if method_of m = ''ping'' then (Some (handlePing env st (id_of m)), w, st)
     else if method_of m = ''notifications/initialized'' then (None, w, st)
     else (Some (createErrorResponse (id_of m) ''-32601'' ''Method not found''
                   (Some (''Metodo no implementado: '' @ method_of m))), w, st))"
    by (simp add: handleMessage_well_formed)
  show "if method_of m \<in> set silent_methods
      then fst (handleMessage env st w message) = None
      else (\<exists>r. fst (handleMessage env st w message) = Some r
               \<and> response_id r = Some (set_node (id_of m)))"
    unfolding h
    by (simp add: silent_methods_def response_id_handleToolsCall
        response_id_handleResourcesRead response_id_handleToolsList
        response_id_handleResourcesList handleInitialize_def handlePing_def)
qed

theorem response_per_request_witness:
  "(\<exists>r. fst (handleMessage example_env example_handler 0 tools_list_request) = Some r
        \<and> response_id r = Some (JNum ''2''))
   \<and> (\<exists>r. fst (handleMessage example_env example_handler 0 unknown_request) = Some r
        \<and> response_id r = Some (JNum ''1''))
   \<and> fst (handleMessage example_env example_handler 0 initialized_request) = None"
proof -
  let ?t = "JObj [(''jsonrpc'', JStr ''2.0''), (''id'', JNum ''2''),
                  (''method'', JStr ''tools/list'')]"
  let ?u = "JObj [(''jsonrpc'', JStr ''2.0''), (''id'', JNum ''1''), (''method'', JStr ''foo'')]"
  let ?i = "JObj [(''jsonrpc'', JStr ''2.0''), (''id'', JNum ''7''),
                  (''method'', JStr ''initialized'')]"
  have t: "readTree example_env tools_list_request = Inr ?t \<and> well_formed ?t"
    by (simp add: example_env_def readTree_of_def ping_notification_def
      initialized_request_def versionless_request_def unknown_request_def
      tools_list_request_def ping_request_def dq_def well_formed_def json_has_def
      json_path_def)
  have u: "readTree example_env unknown_request = Inr ?u \<and> well_formed ?u"
    by (simp add: example_env_def readTree_of_def ping_notification_def
      initialized_request_def versionless_request_def unknown_request_def
      tools_list_request_def ping_request_def dq_def well_formed_def json_has_def
      json_path_def)
  have i: "readTree example_env initialized_request = Inr ?i \<and> well_formed ?i"
    by (simp add: example_env_def readTree_of_def ping_notification_def
      initialized_request_def versionless_request_def unknown_request_def
      tools_list_request_def ping_request_def dq_def well_formed_def json_has_def
      json_path_def)
  have mt: "method_of ?t \<notin> set silent_methods" "set_node (id_of ?t) = JNum ''2''"
    by (simp_all add: method_of_def json_path_def silent_methods_def id_of_def set_node_def)
  have mu: "method_of ?u \<notin> set silent_methods" "set_node (id_of ?u) = JNum ''1''"
    by (simp_all add: method_of_def json_path_def silent_methods_def id_of_def set_node_def)
  have mi: "method_of ?i \<in> set silent_methods"
    by (simp add: method_of_def json_path_def silent_methods_def)
  have 1: "\<exists>r. fst (handleMessage example_env example_handler 0 tools_list_request) = Some r
        \<and> response_id r = Some (JNum ''2'')"
    using response_per_request [of example_env tools_list_request ?t example_handler 0] t mt
    by simp
  have 2: "\<exists>r. fst (handleMessage example_env example_handler 0 unknown_request) = Some r
        \<and> response_id r = Some (JNum ''1'')"
    using response_per_request [of example_env unknown_request ?u example_handler 0] u mu
    by simp
  have 3: "fst (handleMessage example_env example_handler 0 initialized_request) = None"
    using response_per_request [of example_env initialized_request ?i example_handler 0] i mi
    by simp
  from 1 2 3 show ?thesis by blast
qed

section \<open>Requests before the initialization\<close>

text \<open>
  C4, as the claim states it, fails: before the initialization a request for a
  method the server does not know is answered with -32601 (method not found), not
  with -32002, and \<open>initialized\<close> is answered with nothing.
\<close>

theorem before_initialization_counterexample:
  "\<not> isInitialized example_handler
   \<and> fst (handleMessage example_env example_handler 0 unknown_request) =
       Some (createErrorResponse (Some (JNum ''1'')) ''-32601'' ''Method not found''
               (Some ''Metodo no implementado: foo''))
   \<and> error_code (createErrorResponse (Some (JNum ''1'')) ''-32601'' ''Method not found''
                   (Some ''Metodo no implementado: foo'')) = JNum ''-32601''
   \<and> handleMessage example_env example_handler 0 initialized_request =
       (None, 0, example_handler\<lparr>isInitialized := True\<rparr>)"
  by (simp add: handleMessage_def example_env_def readTree_of_def ping_notification_def
      initialized_request_def versionless_request_def unknown_request_def
      tools_list_request_def ping_request_def dq_def json_has_def json_path_def
      handleInitialized_def example_handler_def new_MCPProtocolHandler_def
      error_code_def createErrorResponse_def)

text \<open>
  C4, amended. Before the initialization has completed, every well-formed request
  for \<open>tools/list\<close>, \<open>tools/call\<close>, \<open>resources/list\<close> or \<open>resources/read\<close> is
  answered with the error -32002 (server not initialized) under its id, and neither
  the server nor a collaborator changes; \<open>initialize\<close> and \<open>ping\<close> are answered
  with their results. Of the other methods, \<open>initialized\<close> completes the
  initialization and is answered with nothing, as are \<open>resources/updated\<close> and
  \<open>notifications/initialized\<close>, and any further method is answered with -32601.
\<close>

theorem before_initialization:
  "(readTree env message = Inr m \<and> well_formed m \<and> \<not> isInitialized st \<longrightarrow>
      handleMessage env st w message =
        (if method_of m \<in> set guarded_methods then (Some (not_initialized (id_of m)), w, st)
         else if method_of m = ''initialize'' then
           (Some (handleInitialize st (id_of m) (json_get m ''params'')), w, st)
         else if method_of m = ''ping'' then (Some (handlePing env st (id_of m)), w, st)
         else if method_of m = ''initialized'' then (None, w, st\<lparr>isInitialized := True\<rparr>)
         else if method_of m = ''resources/updated''
                 \<or> method_of m = ''notifications/initialized'' then (None, w, st)
         else (Some (createErrorResponse (id_of m) ''-32601'' ''Method not found''
                       (Some (''Metodo no implementado: '' @ method_of m))), w, st)))
   \<and> error_code (not_initialized rid) = JNum ''-32002''
   \<and> response_id (not_initialized rid) = Some (set_node rid)
   \<and> json_has (handleInitialize st rid ps) ''result''
   \<and> \<not> json_has (handleInitialize st rid ps) ''error''
   \<and> json_has (handlePing env st rid) ''result''
   \<and> \<not> json_has (handlePing env st rid) ''error''"
proof (intro conjI impI)
  assume a: "readTree env message = Inr m \<and> well_formed m \<and> \<not> isInitialized st"
  then have n: "\<not> isInitialized st" by simp
  from a have h: "handleMessage env st w message =
    (if method_of m = ''initialize'' then
       (Some (handleInitialize st (id_of m) (json_get m ''params'')), w, st)
     else if method_of m = ''initialized'' then (None, w, st\<lparr>isInitialized := True\<rparr>)
     else if method_of m = ''tools/list'' then (Some (handleToolsList st (id_of m)), w, st)
     else if method_of m = ''tools/call'' then
       (Some (fst (handleToolsCall env st w (id_of m) (json_get m ''params''))),
        snd (handleToolsCall env st w (id_of m) (json_get m ''params'')))
     else if method_of m = ''resources/list'' then
       (Some (handleResourcesList env st w (id_of m)), w, st)
     else if method_of m = ''resources/read'' then
       (Some (fst (handleResourcesRead env st w (id_of m) (json_get m ''params''))),
        snd (handleResourcesRead env st w (id_of m) (json_get m ''params'')), st)
     else if method_of m = ''resources/updated'' then (None, w, st)
     else if method_of m = ''ping'' then (Some (handlePing env st (id_of m)), w, st)
     else if method_of m = ''notifications/initialized'' then (None, w, st)
     else (Some (createErrorResponse (id_of m) ''-32601'' ''Method not found''
                   (Some (''Metodo no implementado: '' @ method_of m))), w, st))"
    by (simp add: handleMessage_well_formed)
  show "handleMessage env st w message =
        (if method_of m \<in> set guarded_methods then (Some (not_initialized (id_of m)), w, st)
         else if method_of m = ''initialize'' then
           (Some (handleInitialize st (id_of m) (json_get m ''params'')), w, st)
         else if method_of m = ''ping'' then (Some (handlePing env st (id_of m)), w, st)
         else if method_of m = ''initialized'' then (None, w, st\<lparr>isInitialized := True\<rparr>)
         else if method_of m = ''resources/updated''
                 \<or> method_of m = ''notifications/initialized'' then (None, w, st)
         else (Some (createErrorResponse (id_of m) ''-32601'' ''Method not found''
                       (Some (''Metodo no implementado: '' @ method_of m))), w, st))"
    unfolding h using n
    by (simp add: guarded_methods_def handleToolsList_def handleToolsCall_def
        handleResourcesList_def handleResourcesRead_def)
next
  show "error_code (not_initialized rid) = JNum ''-32002''"
    by (simp add: error_code_def not_initialized_def createErrorResponse_def json_path_def)
next
  show "response_id (not_initialized rid) = Some (set_node rid)"
    by (simp add: not_initialized_def)
next
  show "json_has (handleInitialize st rid ps) ''result''"
    by (simp add: handleInitialize_def result_response_def json_has_def)
next
  show "\<not> json_has (handleInitialize st rid ps) ''error''"
    by (simp add: handleInitialize_def result_response_def json_has_def)
next
  show "json_has (handlePing env st rid) ''result''"
    by (simp add: handlePing_def result_response_def json_has_def)
next
  show "\<not> json_has (handlePing env st rid) ''error''"
    by (simp add: handlePing_def result_response_def json_has_def)
qed

theorem before_initialization_witness:
  "handleMessage example_env example_handler 0 tools_list_request =
     (Some (not_initialized (Some (JNum ''2''))), 0, example_handler)
   \<and> handleMessage example_env example_handler 0 ping_request =
     (Some (handlePing example_env example_handler (Some (JNum ''3''))), 0, example_handler)"
proof -
  let ?t = "JObj [(''jsonrpc'', JStr ''2.0''), (''id'', JNum ''2''),
                  (''method'', JStr ''tools/list'')]"
  let ?p = "JObj [(''jsonrpc'', JStr ''2.0''), (''id'', JNum ''3''), (''method'', JStr ''ping'')]"
  have t: "readTree example_env tools_list_request = Inr ?t \<and> well_formed ?t
           \<and> \<not> isInitialized example_handler"
    by (simp add: example_env_def readTree_of_def ping_notification_def
      initialized_request_def versionless_request_def unknown_request_def
      tools_list_request_def ping_request_def dq_def well_formed_def json_has_def
      json_path_def example_handler_def new_MCPProtocolHandler_def)
  have p: "readTree example_env ping_request = Inr ?p \<and> well_formed ?p
           \<and> \<not> isInitialized example_handler"
    by (simp add: example_env_def readTree_of_def ping_notification_def
      initialized_request_def versionless_request_def unknown_request_def
      tools_list_request_def ping_request_def dq_def well_formed_def json_has_def
      json_path_def example_handler_def new_MCPProtocolHandler_def)
  have mt: "method_of ?t \<in> set guarded_methods" "id_of ?t = Some (JNum ''2'')"
    by (simp_all add: method_of_def json_path_def guarded_methods_def id_of_def)
  have mp: "method_of ?p \<notin> set guarded_methods" "method_of ?p = ''ping''"
    "id_of ?p = Some (JNum ''3'')"
    by (simp_all add: method_of_def json_path_def guarded_methods_def id_of_def)
  have 1: "handleMessage example_env example_handler 0 tools_list_request =
     (Some (not_initialized (Some (JNum ''2''))), 0, example_handler)"
    using before_initialization
      [of example_env tools_list_request ?t example_handler 0 None None] t mt
    by simp
  have 2: "handleMessage example_env example_handler 0 ping_request =
     (Some (handlePing example_env example_handler (Some (JNum ''3''))), 0, example_handler)"
    using before_initialization
      [of example_env ping_request ?p example_handler 0 None None] p mp
    by simp
  from 1 2 show ?thesis by blast
qed

section \<open>The order and the stability of the listing\<close>

text \<open>
  C5, as the claim states it, fails for the Java registry: its map is a hash table,
  and the listing follows the bins of the names, not the order of registration.
  Registering \<open>filesystem\<close> (bin 14) and then \<open>echo\<close> (bin 10) lists \<open>echo\<close>
  first.
\<close>

theorem listing_order_counterexample:
  "getToolsListAsJson
     (snd (run_ops [Register (Some (counting_tool ''filesystem'')),
                    Register (Some (counting_tool ''echo''))] (0, new_ToolManager)))
     = JArr [tool_node (counting_tool ''echo''), tool_node (counting_tool ''filesystem'')]
   \<and> tool_node (counting_tool ''echo'') \<noteq> tool_node (counting_tool ''filesystem'')"
proof -
  have r: "registerTool (Some (counting_tool k)) (0::nat) tm =
             Inr (tm\<lparr>tools := chm_put k (counting_tool k) (tools tm)\<rparr>)"
    if "trim k \<noteq> []" for k tm
    using that by (simp add: registerTool_def counting_tool_def)
  have t: "trim ''filesystem'' \<noteq> []" "trim ''echo'' \<noteq> []"
    by (simp_all add: trim_def is_space_def)
  have b: "bin_index ''echo'' < bin_index ''filesystem''"
    by (simp add: bin_index_def String_hashCode_def spread_def)
  have "chm_put ''echo'' (counting_tool ''echo'')
          (chm_put ''filesystem'' (counting_tool ''filesystem'') [])
        = [(''echo'', counting_tool ''echo''), (''filesystem'', counting_tool ''filesystem'')]"
    using b by (simp add: chm_put_def)
  then show ?thesis
    by (simp add: run_ops_def r t new_ToolManager_def getToolsListAsJson_def chm_values_def)
       (simp add: tool_node_def counting_tool_def put_string_def)
qed

text \<open>
  C5, amended. Two consecutive \<open>tools/list\<close> calls return identical listings: the
  call changes neither the server nor a collaborator, and the listing is the same
  after any sequence of executions with no registration and no removal between. In
  the JavaScript registry the listing shows the names in their insertion order (the
  order in which each name was set first). In the Java registry the listing shows
  the names in the order of their hash bins, for every registry built by
  registrations, removals and executions whose hash table has not grown (fewer than
  twelve tools, fewer than eight to a bin); that order need not be the insertion
  order.
\<close>

theorem listing_stable:
  "(\<not> list_ex changes_map ops \<longrightarrow>
      getToolsListAsJson (snd (run_ops ops (w, tm))) = getToolsListAsJson tm)
   \<and> (readTree env message = Inr m \<and> well_formed m \<and> method_of m = ''tools/list'' \<longrightarrow>
        handleMessage env st w message = (Some (handleToolsList st (id_of m)), w, st)
        \<and> (case handleMessage env st w message of
              (r1, w1, st1) \<Rightarrow> handleMessage env st1 w1 message = (r1, w1, st1)))
   \<and> (keyed (tools tm0) \<and> bin_ordered (tools tm0) \<and> table_kept ops' (w, tm0) \<longrightarrow>
        sorted (map bin_index
                  (listed_names (getToolsListAsJson (snd (run_ops ops' (w, tm0)))))))
   \<and> (distinct (map name ds) \<longrightarrow>
        Map_values (set_all ds []) = ds
        \<and> map (\<lambda>j. json_get j ''name'') (getAvailableTools (set_all ds []))
            = map (\<lambda>d. Some (JStr (name d))) ds)
   \<and> (list_all (\<lambda>(k, d). name d = k) reg \<longrightarrow>
        node_names (getAvailableTools (set_all ds' reg))
          = insertion_order (node_names (getAvailableTools reg)) (map name ds'))"
proof (intro conjI impI)
  assume "\<not> list_ex changes_map ops"
  then show "getToolsListAsJson (snd (run_ops ops (w, tm))) = getToolsListAsJson tm"
    using run_ops_keeps_tools [of ops "(w, tm)"] by (simp add: getToolsListAsJson_def)
next
  assume a: "readTree env message = Inr m \<and> well_formed m \<and> method_of m = ''tools/list''"
  then show h: "handleMessage env st w message = (Some (handleToolsList st (id_of m)), w, st)"
    by (simp add: handleMessage_well_formed)
  show "case handleMessage env st w message of
          (r1, w1, st1) \<Rightarrow> handleMessage env st1 w1 message = (r1, w1, st1)"
    unfolding h by (simp add: h)
next
  assume a: "keyed (tools tm0) \<and> bin_ordered (tools tm0) \<and> table_kept ops' (w, tm0)"
  have k: "keyed (tools (snd (run_ops ops' (w, tm0))))"
    using a keyed_run_ops [of "(w, tm0)" ops'] by simp
  have b: "bin_ordered (tools (snd (run_ops ops' (w, tm0))))"
    using a bin_ordered_run_ops [of "(w, tm0)" ops'] by simp
  show "sorted (map bin_index
                  (listed_names (getToolsListAsJson (snd (run_ops ops' (w, tm0))))))"
    using b unfolding listed_names_keyed [OF k] bin_ordered_keys .
next
  assume d: "distinct (map name ds)"
  then have s: "set_all ds [] = map (\<lambda>d. (name d, d)) ds"
    using set_all_fresh [of ds "[]"] by simp
  show "Map_values (set_all ds []) = ds"
    by (simp add: s Map_values_def comp_def)
  show "map (\<lambda>j. json_get j ''name'') (getAvailableTools (set_all ds []))
          = map (\<lambda>d. Some (JStr (name d))) ds"
    by (simp add: s getAvailableTools_def Map_values_def comp_def)
next
  assume n: "list_all (\<lambda>(k, d). name d = k) reg"
  then have "list_all (\<lambda>(k, d). name d = k) (set_all ds' reg)"
    by (rule named_set_all)
  then show "node_names (getAvailableTools (set_all ds' reg))
          = insertion_order (node_names (getAvailableTools reg)) (map name ds')"
    using n keys_set_all [of ds' reg] by (simp add: node_names_named)
qed

theorem listing_stable_witness:
  "getToolsListAsJson (snd (run_ops [Execute ''echo'' None, Execute ''nope'' None]
                              (0, example_manager))) = getToolsListAsJson example_manager
   \<and> handleMessage example_env (example_handler\<lparr>isInitialized := True\<rparr>) 0 tools_list_request
       = (Some (handleToolsList (example_handler\<lparr>isInitialized := True\<rparr>) (Some (JNum ''2''))),
          0, example_handler\<lparr>isInitialized := True\<rparr>)
   \<and> listed_names (getToolsListAsJson
         (snd (run_ops [Register (Some (counting_tool ''filesystem'')),
                        Register (Some (counting_tool ''echo''))] (0, new_ToolManager))))
       = [''echo'', ''filesystem'']
   \<and> sorted (map bin_index
        (listed_names (getToolsListAsJson
           (snd (run_ops [Register (Some (counting_tool ''filesystem'')),
                          Register (Some (counting_tool ''echo''))] (0, new_ToolManager))))))
   \<and> Map_values (set_all [echo, failing_descriptor] []) = [echo, failing_descriptor]
   \<and> node_names (getAvailableTools (set_all [failing_descriptor, echo] [(''echo'', echo)]))
       = [''echo'', ''failing'']"
proof -
  let ?t = "JObj [(''jsonrpc'', JStr ''2.0''), (''id'', JNum ''2''),
                  (''method'', JStr ''tools/list'')]"
  let ?st = "example_handler\<lparr>isInitialized := True\<rparr>"
  let ?ops = "[Execute ''echo'' None, Execute ''nope'' None] :: nat registry_op list"
  let ?ops' = "[Register (Some (counting_tool ''filesystem'')),
                Register (Some (counting_tool ''echo''))] :: nat registry_op list"
  let ?ds = "[echo, failing_descriptor] :: nat descriptor list"
  let ?ds' = "[failing_descriptor, echo] :: nat descriptor list"
  let ?reg = "[(''echo'', echo)] :: nat ToolsRegistry"
  let ?tm2 = "new_ToolManager\<lparr>tools := [(''echo'', counting_tool ''echo''),
                                         (''filesystem'', counting_tool ''filesystem'')]\<rparr>
              :: nat ToolManager"
  have t: "readTree example_env tools_list_request = Inr ?t \<and> well_formed ?t
           \<and> method_of ?t = ''tools/list''"
    by (simp add: example_env_def readTree_of_def ping_notification_def
      initialized_request_def versionless_request_def unknown_request_def
      tools_list_request_def ping_request_def dq_def well_formed_def json_has_def
      json_path_def method_of_def)
  have i: "id_of ?t = Some (JNum ''2'')"
    by (simp add: id_of_def)
  have o: "\<not> list_ex changes_map ?ops"
    by simp
  have bf: "bin_index ''filesystem'' = 14" and be: "bin_index ''echo'' = 10"
    by (simp_all add: bin_index_def String_hashCode_def spread_def)
  have r: "registerTool (Some (counting_tool k)) (0::nat) tm' =
             Inr (tm'\<lparr>tools := chm_put k (counting_tool k) (tools tm')\<rparr>)"
    if "trim k \<noteq> []" for k tm'
    using that by (simp add: registerTool_def counting_tool_def)
  have tr: "trim ''filesystem'' \<noteq> []" "trim ''echo'' \<noteq> []"
    by (simp_all add: trim_def is_space_def)
  have p1: "chm_put ''filesystem'' (counting_tool ''filesystem'') []
              = [(''filesystem'', counting_tool ''filesystem'')]"
    by (simp add: chm_put_def)
  have p2: "chm_put ''echo'' (counting_tool ''echo'')
              [(''filesystem'', counting_tool ''filesystem'')]
            = [(''echo'', counting_tool ''echo''), (''filesystem'', counting_tool ''filesystem'')]"
    by (simp add: chm_put_def bf be)
  have a1: "apply_op (0, new_ToolManager) (Register (Some (counting_tool ''filesystem'')))
              = (0, new_ToolManager\<lparr>tools := [(''filesystem'', counting_tool ''filesystem'')]\<rparr>)"
    by (simp add: r tr new_ToolManager_def p1)
  have a2: "apply_op (0, new_ToolManager\<lparr>tools := [(''filesystem'', counting_tool ''filesystem'')]\<rparr>)
                     (Register (Some (counting_tool ''echo''))) = (0, ?tm2)"
    by (simp add: r tr new_ToolManager_def p2)
  have run: "run_ops ?ops' (0, new_ToolManager) = (0, ?tm2)"
    unfolding run_ops_def by (simp only: foldl.simps a1 a2)
  have kept: "table_kept ?ops' (0, new_ToolManager :: nat ToolManager)"
    by (simp only: table_kept.simps a1 a2 snd_conv)
       (simp add: within_table_def new_ToolManager_def bf be)
  have k0: "keyed (tools (new_ToolManager :: nat ToolManager))
            \<and> bin_ordered (tools (new_ToolManager :: nat ToolManager))"
    by (simp add: new_ToolManager_def keyed_def bin_ordered_def)
  have d: "distinct (map name ?ds)"
    by (simp add: echo_def failing_descriptor_def)
  have n: "list_all (\<lambda>(k, d). name d = k) ?reg"
    by (simp add: echo_def)
  note th = listing_stable
    [of ?ops 0 example_manager example_env tools_list_request ?t ?st new_ToolManager ?ops'
        ?ds ?reg ?ds']
  have 1: "getToolsListAsJson (snd (run_ops ?ops (0, example_manager)))
             = getToolsListAsJson example_manager"
    using th o by blast
  have 2: "handleMessage example_env ?st 0 tools_list_request
             = (Some (handleToolsList ?st (Some (JNum ''2''))), 0, ?st)"
    using th t i by simp
  have 3: "sorted (map bin_index (listed_names (getToolsListAsJson
             (snd (run_ops ?ops' (0, new_ToolManager :: nat ToolManager))))))"
    using th k0 kept by blast
  have names: "listed_names (getToolsListAsJson
              (snd (run_ops ?ops' (0, new_ToolManager :: nat ToolManager))))
            = [''echo'', ''filesystem'']"
    unfolding run
    by (simp add: getToolsListAsJson_def chm_values_def new_ToolManager_def node_names_def
        tool_node_def counting_tool_def put_string_def json_path_def)
  have 4: "Map_values (set_all ?ds []) = ?ds"
    using th d by blast
  have 5: "node_names (getAvailableTools (set_all ?ds' ?reg))
             = insertion_order (node_names (getAvailableTools ?reg)) (map name ?ds')"
    using th n by blast
  have order: "insertion_order (node_names (getAvailableTools ?reg)) (map name ?ds')
              = [''echo'', ''failing'']"
    by (simp add: node_names_def getAvailableTools_def Map_values_def json_path_def echo_def
        failing_descriptor_def)
  from 1 2 3 names 4 5 order show ?thesis by simp
qed

section \<open>Disabled tools in the listing\<close>

text \<open>
  C6. The claim holds of the count (\<open>getToolCount\<close> filters on \<open>isEnabled()\<close>) but
  not of the listing: \<open>getToolsListAsJson\<close> walks all values of the map without
  asking \<open>isEnabled()\<close>. A tool that was enabled when registered and has disabled
  itself since (here by its first run) is still listed, while it is not counted,
  \<open>hasToolEnabled\<close> denies it and \<open>executeTool\<close> refuses it as disabled.
\<close>

theorem disabled_tool_still_listed:
  "(case run_ops [Register (Some (switch_tool ''once'')), Execute ''once'' None]
           (0, new_ToolManager) of
      (w1, tm1) \<Rightarrow>
        w1 = 1
        \<and> chm_get (tools tm1) ''once'' = Some (switch_tool ''once'')
        \<and> \<not> isEnabled (switch_tool ''once'') w1
        \<and> getToolsListAsJson tm1 = JArr [tool_node (switch_tool ''once'')]
        \<and> getToolCount w1 tm1 = 0
        \<and> getTotalToolCount tm1 = 1
        \<and> \<not> hasToolEnabled ''once'' w1 tm1
        \<and> fst (executeTool ''once'' None w1 tm1) =
            Inl (IllegalStateException ''Herramienta deshabilitada: once''))"
proof -
  let ?tm0 = "new_ToolManager\<lparr>tools := [(''once'', switch_tool ''once'')]\<rparr> :: nat ToolManager"
  have r: "registerTool (Some (switch_tool ''once'')) (0::nat) new_ToolManager = Inr ?tm0"
    by (simp add: registerTool_def switch_tool_def trim_def is_space_def new_ToolManager_def
        chm_put_def)
  have g: "chm_get (tools ?tm0) ''once'' = Some (switch_tool ''once'')"
    by (simp add: chm_get_def)
  have e: "isEnabled (switch_tool ''once'') (0::nat)"
    by (simp add: switch_tool_def)
  have x: "executeTool ''once'' None 0 ?tm0 =
             (Inr ''{}'', 1, ?tm0\<lparr>executionCount := executionCount ?tm0 + 1\<rparr>)"
    unfolding executeTool_registered [OF g e] by (simp add: switch_tool_def)
  have s: "run_ops [Register (Some (switch_tool ''once'')), Execute ''once'' None]
             (0, new_ToolManager) = (1, ?tm0\<lparr>executionCount := executionCount ?tm0 + 1\<rparr>)"
    by (simp add: run_ops_def r x)
  have d: "\<not> isEnabled (switch_tool ''once'') (1::nat)"
    by (simp add: switch_tool_def)
  show ?thesis
    unfolding s using d
    by (simp add: chm_get_def getToolsListAsJson_def chm_values_def getToolCount_def
        getTotalToolCount_def hasToolEnabled_def executeTool_def Let_def)
qed

section \<open>The file-system tool stays in its workspace\<close>








end
